theory Spec2Isabelle
  imports Main "HOL-Library.Word"
begin

section \<open>JavaScript values used by \<open>src/index.ts\<close>\<close>

text \<open>
  A JavaScript string is a sequence of UTF-16 code units. \<open>js\<close> embeds an ASCII literal.
\<close>

type_synonym js_string = "16 word list"

definition js :: "string \<Rightarrow> js_string" where
  "js s = map of_char s"

text \<open>
  \<open>String.prototype.trim\<close> removes the ECMAScript \<open>WhiteSpace\<close> and \<open>LineTerminator\<close>
  code units from both ends; these are the code units called blank here.
\<close>

definition WhiteSpace :: "16 word \<Rightarrow> bool" where
  "WhiteSpace c \<longleftrightarrow>
     c = 0x0009 \<or> c = 0x000B \<or> c = 0x000C \<or> c = 0x0020 \<or> c = 0x00A0 \<or> c = 0x1680 \<or>
     (0x2000 \<le> c \<and> c \<le> 0x200A) \<or> c = 0x202F \<or> c = 0x205F \<or> c = 0x3000 \<or> c = 0xFEFF"

definition LineTerminator :: "16 word \<Rightarrow> bool" where
  "LineTerminator c \<longleftrightarrow> c = 0x000A \<or> c = 0x000D \<or> c = 0x2028 \<or> c = 0x2029"

definition blank :: "16 word \<Rightarrow> bool" where
  "blank c \<longleftrightarrow> WhiteSpace c \<or> LineTerminator c"

definition trim :: "js_string \<Rightarrow> js_string" where
  "trim s = rev (dropWhile blank (rev (dropWhile blank s)))"

text \<open>
  \<open>Number.prototype.toString\<close> on a non-negative integer: its decimal digits.
\<close>

fun toString :: "nat \<Rightarrow> js_string" where
  "toString n =
     (if n < 10 then [of_nat (48 + n)] else toString (n div 10) @ [of_nat (48 + n mod 10)])"

declare toString.simps [simp del]

text \<open>
  The value \<open>res.json()\<close> yields. Of a number only its being zero is ever observed here.
  A property read on an object finds the last binding of the key, as \<open>JSON.parse\<close> keeps
  the last of duplicate keys; on any other value it is \<open>undefined\<close> (\<open>None\<close>).
\<close>

datatype json =
    JNull
  | JBool bool
  | JNum int
  | JStr js_string
  | JArr "json list"
  | JObj "(js_string \<times> json) list"

fun truthy :: "json \<Rightarrow> bool" where
  "truthy JNull = False"
| "truthy (JBool b) = b"
| "truthy (JNum n) = (n \<noteq> 0)"
| "truthy (JStr s) = (s \<noteq> [])"
| "truthy (JArr xs) = True"
| "truthy (JObj kvs) = True"

fun truthy_opt :: "json option \<Rightarrow> bool" where
  "truthy_opt None = False"
| "truthy_opt (Some v) = truthy v"

fun property :: "json \<Rightarrow> js_string \<Rightarrow> json option" where
  "property (JObj kvs) k = map_of (rev kvs) k"
| "property v k = None"

text \<open>\<open>x ?? d\<close>: the default replaces \<open>undefined\<close> and \<open>null\<close> only.\<close>

fun nullish :: "json option \<Rightarrow> json \<Rightarrow> json" where
  "nullish None d = d"
| "nullish (Some JNull) d = d"
| "nullish (Some v) d = v"

text \<open>\<open>x == null\<close> holds of \<open>undefined\<close> and of \<open>null\<close>.\<close>

fun eq_null :: "json option \<Rightarrow> bool" where
  "eq_null None = True"
| "eq_null (Some JNull) = True"
| "eq_null (Some v) = False"

section \<open>Exceptions, console output and external requests\<close>

text \<open>
  The three \<open>Error\<close>s the program constructs carry the value their message interpolates;
  \<open>External\<close> is whatever an external call (fetch, JSON parsing, the RPC client, the
  transaction library) throws.
\<close>

datatype exn =
    QuoteApiError "json option"
  | SwapApiError json
  | NoSwapTransaction
  | External js_string

datatype arg = Str js_string | Undefined | Caught exn | Json json

datatype console_line = ConsoleLog "arg list" | ConsoleError "arg list"

record URL =
  endpoint :: js_string
  searchParams :: "(js_string \<times> js_string) list"

text \<open>
  The arguments of \<open>URLSearchParams.set\<close> are scalar value strings: on the way in, every
  surrogate code unit that is not part of a pair (a leading surrogate followed by a trailing
  one) becomes U+FFFD.
\<close>

definition leading_surrogate :: "16 word \<Rightarrow> bool" where
  "leading_surrogate c \<longleftrightarrow> 0xD800 \<le> c \<and> c \<le> 0xDBFF"

definition trailing_surrogate :: "16 word \<Rightarrow> bool" where
  "trailing_surrogate c \<longleftrightarrow> 0xDC00 \<le> c \<and> c \<le> 0xDFFF"

fun to_usv :: "js_string \<Rightarrow> js_string" where
  "to_usv [] = []"
| "to_usv [c] = (if leading_surrogate c \<or> trailing_surrogate c then [0xFFFD] else [c])"
| "to_usv (c # d # cs) =
     (if leading_surrogate c
      then (if trailing_surrogate d then c # d # to_usv cs else 0xFFFD # to_usv (d # cs))
      else if trailing_surrogate c then 0xFFFD # to_usv (d # cs)
      else c # to_usv (d # cs))"

text \<open>
  \<open>URLSearchParams.set\<close>: the first pair of that name takes the value and the later ones
  go; without such a pair, one is appended.
\<close>

definition set_pair ::
  "js_string \<Rightarrow> js_string \<Rightarrow> (js_string \<times> js_string) list \<Rightarrow> (js_string \<times> js_string) list" where
  "set_pair name v ps =
     (if name \<in> fst ` set ps
      then takeWhile (\<lambda>p. fst p \<noteq> name) ps @ [(name, v)] @
           filter (\<lambda>p. fst p \<noteq> name) (dropWhile (\<lambda>p. fst p \<noteq> name) ps)
      else ps @ [(name, v)])"

definition searchParams_set :: "js_string \<Rightarrow> js_string \<Rightarrow> URL \<Rightarrow> URL" where
  "searchParams_set name v u =
     u\<lparr>searchParams := set_pair (to_usv name) (to_usv v) (searchParams u)\<rparr>"

datatype request =
    Get URL
  | Post js_string "(js_string \<times> js_string) list" json

record send_options =
  skipPreflight :: bool
  maxRetries :: nat

record blockhash_info =
  blockhash :: js_string
  lastValidBlockHeight :: nat

record confirm_strategy = blockhash_info +
  signature :: js_string

record SignatureResult =
  err :: "json option"

record RpcResponseAndContext =
  rpc_context :: nat
  rpc_value :: SignatureResult

type_synonym bytes = "8 word list"

text \<open>An external call the program issues.\<close>

datatype call =
    FetchJson request
  | SendRawTransaction bytes send_options
  | GetLatestBlockhash
  | ConfirmTransaction confirm_strategy

section \<open>Asynchronous functions\<close>

text \<open>
  The body of an \<open>async\<close> function: it settles (\<open>Return\<close> resolves the promise,
  \<open>Throw\<close> rejects it), writes to the console, or awaits an external call, which either
  throws (\<open>Inl\<close>) or yields its value (\<open>Inr\<close>). Every awaited call is taken to settle:
  a call that never answers leaves the function suspended for good, and is not modelled.
\<close>

datatype proc =
    Return
  | Throw exn
  | Console console_line proc
  | AwaitFetch request "exn + json \<Rightarrow> proc"
  | AwaitSend bytes send_options "exn + js_string \<Rightarrow> proc"
  | AwaitBlockhash "exn + blockhash_info \<Rightarrow> proc"
  | AwaitConfirm confirm_strategy "exn + RpcResponseAndContext \<Rightarrow> proc"

text \<open>\<open>try { body } catch (error) { handler }\<close>\<close>

primrec try_catch :: "proc \<Rightarrow> (exn \<Rightarrow> proc) \<Rightarrow> proc" where
  "try_catch Return h = Return"
| "try_catch (Throw e) h = h e"
| "try_catch (Console l p) h = Console l (try_catch p h)"
| "try_catch (AwaitFetch r k) h = AwaitFetch r (\<lambda>x. try_catch (k x) h)"
| "try_catch (AwaitSend b opts k) h = AwaitSend b opts (\<lambda>x. try_catch (k x) h)"
| "try_catch (AwaitBlockhash k) h = AwaitBlockhash (\<lambda>x. try_catch (k x) h)"
| "try_catch (AwaitConfirm c k) h = AwaitConfirm c (\<lambda>x. try_catch (k x) h)"

text \<open>A value that is there, or the exception in its place.\<close>

definition or_throw :: "exn + 'a \<Rightarrow> ('a \<Rightarrow> proc) \<Rightarrow> proc" where
  "or_throw r k = (case r of Inl e \<Rightarrow> Throw e | Inr v \<Rightarrow> k v)"

definition emit :: "console_line list \<Rightarrow> proc \<Rightarrow> proc" where
  "emit ls p = foldr Console ls p"

section \<open>The wallet and the transaction library\<close>

text \<open>
  \<open>deserialize\<close> is \<open>VersionedTransaction.deserialize(Buffer.from(swapTransaction, 'base64'))\<close>,
  \<open>sign\<close> is \<open>transaction.sign([wallet.payer])\<close>, \<open>serialize\<close> is \<open>transaction.serialize()\<close>
  and \<open>publicKey\<close> is \<open>wallet.publicKey.toBase58()\<close>.
\<close>

record 'tx lib =
  publicKey :: js_string
  deserialize :: "json \<Rightarrow> exn + 'tx"
  sign :: "'tx \<Rightarrow> exn + 'tx"
  serialize :: "'tx \<Rightarrow> exn + bytes"

section \<open>\<open>handleTxConfirmation\<close>\<close>

definition handleTxConfirmation :: "js_string \<Rightarrow> RpcResponseAndContext \<Rightarrow> console_line list" where
  "handleTxConfirmation txid confirmation =
     (if eq_null (err (rpc_value confirmation))
      then [ConsoleLog [Str (js ''Swap successful!'')],
            ConsoleLog [Str (js ''View on Solscan: https://solscan.io/tx/'' @ txid)]]
      else [ConsoleError [Str (js ''Transaction error:''),
                          (case err (rpc_value confirmation) of None \<Rightarrow> Undefined | Some e \<Rightarrow> Json e)]])"

section \<open>\<open>buyTokenWithJupiter\<close>\<close>

definition amountLamports :: nat where
  "amountLamports = 1000000000"

definition slippageBps :: nat where
  "slippageBps = 5000"

definition quoteUrl :: "js_string \<Rightarrow> URL" where
  "quoteUrl mint =
     searchParams_set (js ''slippageBps'') (toString slippageBps)
       (searchParams_set (js ''amount'') (toString amountLamports)
         (searchParams_set (js ''outputMint'') mint
           (searchParams_set (js ''inputMint'') (js ''So11111111111111111111111111111111111111112'')
             \<lparr>endpoint = js ''https://quote-api.jup.ag/v6/quote'', searchParams = []\<rparr>)))"

definition swapUrl :: js_string where
  "swapUrl = js ''https://quote-api.jup.ag/v6/swap''"

definition swapBody :: "'tx lib \<Rightarrow> json \<Rightarrow> json" where
  "swapBody lib quoteResponse =
     JObj [(js ''quoteResponse'', quoteResponse),
           (js ''userPublicKey'', JStr (publicKey lib)),
           (js ''wrapAndUnwrapSol'', JBool True)]"

definition swap_request :: "'tx lib \<Rightarrow> json \<Rightarrow> request" where
  "swap_request lib quoteResponse =
     Post swapUrl [(js ''Content-Type'', js ''application/json'')] (swapBody lib quoteResponse)"

text \<open>The lines \<open>buyTokenWithJupiter\<close> prints.\<close>

definition invalid_line :: "js_string option \<Rightarrow> console_line" where
  "invalid_line mint =
     ConsoleError [Str (js ''buyTokenWithJupiter called with invalid outputMint:''),
                   (case mint of None \<Rightarrow> Undefined | Some m \<Rightarrow> Str m)]"

definition attempt_line :: "js_string \<Rightarrow> console_line" where
  "attempt_line mint = ConsoleLog [Str (0x0A # js ''Attempting to buy token: '' @ mint)]"

definition failed_line :: "exn \<Rightarrow> console_line" where
  "failed_line error = ConsoleError [Str (js ''Jupiter swap failed:''), Caught error]"

text \<open>
  The statements inside \<open>try\<close>, for a \<open>mint\<close> that passed the guard, last step first:
  4) send and confirm the transaction, 3) deserialize and sign it, 2) request the swap
  transaction, 1) get a quote.
\<close>

definition send_and_confirm :: "bytes \<Rightarrow> proc" where
  "send_and_confirm rawTransaction =
     AwaitSend rawTransaction \<lparr>skipPreflight = True, maxRetries = 2\<rparr> (\<lambda>r. or_throw r (\<lambda>txid.
     AwaitBlockhash (\<lambda>r. or_throw r (\<lambda>latestBlockHash.
     AwaitConfirm \<lparr>blockhash = blockhash latestBlockHash,
                    lastValidBlockHeight = lastValidBlockHeight latestBlockHash,
                    signature = txid\<rparr> (\<lambda>r. or_throw r (\<lambda>confirmation.
     emit (handleTxConfirmation txid confirmation) Return))))))"

definition deserialize_and_sign :: "'tx lib \<Rightarrow> json \<Rightarrow> proc" where
  "deserialize_and_sign lib swapTransaction =
     or_throw (deserialize lib swapTransaction) (\<lambda>transaction.
     or_throw (sign lib transaction) (\<lambda>signedTx.
     or_throw (serialize lib signedTx) (\<lambda>rawTransaction.
     send_and_confirm rawTransaction)))"

definition request_swap :: "'tx lib \<Rightarrow> json \<Rightarrow> proc" where
  "request_swap lib quoteResponse =
     AwaitFetch (swap_request lib quoteResponse) (\<lambda>r. or_throw r (\<lambda>swapResponse.
       if \<not> truthy swapResponse \<or> truthy_opt (property swapResponse (js ''error''))
       then Throw (SwapApiError
                     (nullish (if swapResponse = JNull then None
                               else property swapResponse (js ''error''))
                              (JStr (js ''Unknown error''))))
       else (case property swapResponse (js ''swapTransaction'') of
               None \<Rightarrow> Throw NoSwapTransaction
             | Some swapTransaction \<Rightarrow>
                 if \<not> truthy swapTransaction then Throw NoSwapTransaction
                 else deserialize_and_sign lib swapTransaction)))"

definition swap_steps :: "'tx lib \<Rightarrow> js_string \<Rightarrow> proc" where
  "swap_steps lib mint =
     Console (attempt_line mint)
    (AwaitFetch (Get (quoteUrl mint)) (\<lambda>r. or_throw r (\<lambda>quoteResponse.
       if \<not> truthy quoteResponse \<or> truthy_opt (property quoteResponse (js ''error''))
       then Throw (QuoteApiError (if quoteResponse = JNull then None
                                  else property quoteResponse (js ''error'')))
       else request_swap lib quoteResponse)))"

text \<open>
  \<open>mint\<close> is an optional parameter: \<open>None\<close> is \<open>undefined\<close>. \<open>!mint\<close> holds of
  \<open>undefined\<close> and of the empty string.
\<close>

definition buyTokenWithJupiter :: "'tx lib \<Rightarrow> js_string option \<Rightarrow> proc" where
  "buyTokenWithJupiter lib mint =
     (case mint of
        None \<Rightarrow> Console (invalid_line mint) Return
      | Some m \<Rightarrow>
          if m = [] \<or> trim m = [] then Console (invalid_line mint) Return
          else try_catch (swap_steps lib m) (\<lambda>error. Console (failed_line error) Return))"

section \<open>Running an asynchronous function against the outside world\<close>

text \<open>
  How the outside world answers the external calls of one invocation. An invocation of
  \<open>buyTokenWithJupiter\<close> issues each kind of call at most once, with different requests for
  its two fetches, so functions of the request describe every possible behaviour.
\<close>

record world =
  fetch :: "request \<Rightarrow> exn + json"
  sendRawTransaction :: "bytes \<Rightarrow> send_options \<Rightarrow> exn + js_string"
  getLatestBlockhash :: "exn + blockhash_info"
  confirmTransaction :: "confirm_strategy \<Rightarrow> exn + RpcResponseAndContext"

datatype effect = Printed console_line | Called call

text \<open>
  \<open>run\<close> takes an invocation to the end: the effects in order, and how the promise settles
  (\<open>Inr ()\<close> resolved, \<open>Inl e\<close> rejected with \<open>e\<close>).
\<close>

primrec run :: "world \<Rightarrow> proc \<Rightarrow> effect list \<times> (exn + unit)" where
  "run w Return = ([], Inr ())"
| "run w (Throw e) = ([], Inl e)"
| "run w (Console l p) = (Printed l # fst (run w p), snd (run w p))"
| "run w (AwaitFetch r k) =
     (Called (FetchJson r) # fst (run w (k (fetch w r))), snd (run w (k (fetch w r))))"
| "run w (AwaitSend b opts k) =
     (Called (SendRawTransaction b opts) # fst (run w (k (sendRawTransaction w b opts))),
      snd (run w (k (sendRawTransaction w b opts))))"
| "run w (AwaitBlockhash k) =
     (Called GetLatestBlockhash # fst (run w (k (getLatestBlockhash w))),
      snd (run w (k (getLatestBlockhash w))))"
| "run w (AwaitConfirm c k) =
     (Called (ConfirmTransaction c) # fst (run w (k (confirmTransaction w c))),
      snd (run w (k (confirmTransaction w c))))"

text \<open>
  The external calls among the effects, and the step of the swap each call belongs to:
  0 the quote, 1 the swap transaction, 2 sending, 3 the latest blockhash, 4 confirming.
\<close>

fun calls :: "effect list \<Rightarrow> call list" where
  "calls [] = []"
| "calls (Called c # es) = c # calls es"
| "calls (Printed l # es) = calls es"

fun stage :: "call \<Rightarrow> nat" where
  "stage (FetchJson (Get u)) = 0"
| "stage (FetchJson (Post a h b)) = 1"
| "stage (SendRawTransaction b opts) = 2"
| "stage GetLatestBlockhash = 3"
| "stage (ConfirmTransaction c) = 4"

section \<open>\<open>Promise.all\<close> over the two swaps\<close>

text \<open>
  Calling an \<open>async\<close> function runs it up to its first \<open>await\<close>, where the call is issued
  and the function is suspended, or to its end. \<open>sync\<close> gives the effects up to there and
  what is left: the suspended function, or \<open>Return\<close> or \<open>Throw\<close> when it has settled.
\<close>

primrec sync :: "proc \<Rightarrow> effect list \<times> proc" where
  "sync Return = ([], Return)"
| "sync (Throw e) = ([], Throw e)"
| "sync (Console l p) = (Printed l # fst (sync p), snd (sync p))"
| "sync (AwaitFetch r k) = ([Called (FetchJson r)], AwaitFetch r k)"
| "sync (AwaitSend b opts k) = ([Called (SendRawTransaction b opts)], AwaitSend b opts k)"
| "sync (AwaitBlockhash k) = ([Called GetLatestBlockhash], AwaitBlockhash k)"
| "sync (AwaitConfirm c k) = ([Called (ConfirmTransaction c)], AwaitConfirm c k)"

text \<open>
  The awaited call of a suspended function settles: the function runs on to its next
  \<open>await\<close> or to its end. A settled function stays as it is.
\<close>

primrec resume :: "world \<Rightarrow> proc \<Rightarrow> effect list \<times> proc" where
  "resume w Return = ([], Return)"
| "resume w (Throw e) = ([], Throw e)"
| "resume w (Console l p) = sync (Console l p)"
| "resume w (AwaitFetch r k) = sync (k (fetch w r))"
| "resume w (AwaitSend b opts k) = sync (k (sendRawTransaction w b opts))"
| "resume w (AwaitBlockhash k) = sync (k (getLatestBlockhash w))"
| "resume w (AwaitConfirm c k) = sync (k (confirmTransaction w c))"

text \<open>All that a suspended function still does, its issued call settling first.\<close>

primrec finish :: "world \<Rightarrow> proc \<Rightarrow> effect list \<times> (exn + unit)" where
  "finish w Return = ([], Inr ())"
| "finish w (Throw e) = ([], Inl e)"
| "finish w (Console l p) = run w (Console l p)"
| "finish w (AwaitFetch r k) = run w (k (fetch w r))"
| "finish w (AwaitSend b opts k) = run w (k (sendRawTransaction w b opts))"
| "finish w (AwaitBlockhash k) = run w (k (getLatestBlockhash w))"
| "finish w (AwaitConfirm c k) = run w (k (confirmTransaction w c))"

datatype flow = Poller | AbelSwap | TrinitySwap

type_synonym event = "flow \<times> effect"

definition by_flow :: "flow \<Rightarrow> effect list \<Rightarrow> event list" where
  "by_flow f es = map (Pair f) es"

text \<open>
  The responses awaited by the two suspended swaps arrive in some order: \<open>False\<close> is a
  response for the first swap, \<open>True\<close> one for the second, and a response for a swap that
  has settled is none. Past the listed arrivals the first swap is taken to its end, then
  the second. \<open>interleave\<close> gives the events of the two swaps in order, to their ends.
\<close>

fun interleave :: "world \<Rightarrow> world \<Rightarrow> bool list \<Rightarrow> proc \<Rightarrow> proc \<Rightarrow> event list" where
  "interleave w1 w2 [] p1 p2 =
     by_flow AbelSwap (fst (finish w1 p1)) @ by_flow TrinitySwap (fst (finish w2 p2))"
| "interleave w1 w2 (False # bs) p1 p2 =
     by_flow AbelSwap (fst (resume w1 p1)) @ interleave w1 w2 bs (snd (resume w1 p1)) p2"
| "interleave w1 w2 (True # bs) p1 p2 =
     by_flow TrinitySwap (fst (resume w2 p2)) @ interleave w1 w2 bs p1 (snd (resume w2 p2))"

text \<open>
  \<open>Promise.all\<close> over two promises rejects as soon as one of them rejects, with that
  rejection, and resolves once both have resolved. \<open>settled_join\<close> is what the join has
  settled as, if it has, given how far the two functions are.
\<close>

fun rejection :: "proc \<Rightarrow> exn option" where
  "rejection (Throw e) = Some e"
| "rejection p = None"

fun resolved :: "proc \<Rightarrow> bool" where
  "resolved Return = True"
| "resolved p = False"

definition settled_join :: "proc \<Rightarrow> proc \<Rightarrow> (exn + unit) option" where
  "settled_join p1 p2 =
     (case rejection p1 of
        Some e \<Rightarrow> Some (Inl e)
      | None \<Rightarrow>
          (case rejection p2 of
             Some e \<Rightarrow> Some (Inl e)
           | None \<Rightarrow> if resolved p1 \<and> resolved p2 then Some (Inr ()) else None))"

text \<open>
  A fan-out as its caller meets it: the events until the join settles, how the join
  settles, and the events of the swaps behind the settled join (a swap that is still
  running when the other one rejects goes on).
\<close>

record fan_out =
  settling :: "event list"
  outcome :: "exn + unit"
  behind :: "event list"

definition earlier :: "event list \<Rightarrow> fan_out \<Rightarrow> fan_out" where
  "earlier es j = j\<lparr>settling := es @ settling j\<rparr>"

fun deliver :: "world \<Rightarrow> world \<Rightarrow> bool list \<Rightarrow> proc \<Rightarrow> proc \<Rightarrow> fan_out" where
  "deliver w1 w2 [] p1 p2 =
     (case settled_join p1 p2 of
        Some r \<Rightarrow> \<lparr>settling = [], outcome = r, behind = interleave w1 w2 [] p1 p2\<rparr>
      | None \<Rightarrow>
          (case snd (finish w1 p1) of
             Inl e \<Rightarrow>
               \<lparr>settling = by_flow AbelSwap (fst (finish w1 p1)),
                outcome = Inl e,
                behind = by_flow TrinitySwap (fst (finish w2 p2))\<rparr>
           | Inr u \<Rightarrow>
               \<lparr>settling = by_flow AbelSwap (fst (finish w1 p1)) @
                           by_flow TrinitySwap (fst (finish w2 p2)),
                outcome = snd (finish w2 p2),
                behind = []\<rparr>))"
| "deliver w1 w2 (False # bs) p1 p2 =
     (case settled_join p1 p2 of
        Some r \<Rightarrow> \<lparr>settling = [], outcome = r, behind = interleave w1 w2 (False # bs) p1 p2\<rparr>
      | None \<Rightarrow>
          earlier (by_flow AbelSwap (fst (resume w1 p1)))
            (deliver w1 w2 bs (snd (resume w1 p1)) p2))"
| "deliver w1 w2 (True # bs) p1 p2 =
     (case settled_join p1 p2 of
        Some r \<Rightarrow> \<lparr>settling = [], outcome = r, behind = interleave w1 w2 (True # bs) p1 p2\<rparr>
      | None \<Rightarrow>
          earlier (by_flow TrinitySwap (fst (resume w2 p2)))
            (deliver w1 w2 bs p1 (snd (resume w2 p2))))"

text \<open>
  \<open>await Promise.all([p1, p2])\<close>: the array literal calls the two functions in order, each
  running to its first \<open>await\<close>; the join is made of their two promises; then the
  responses arrive.
\<close>

definition promise_all :: "world \<Rightarrow> world \<Rightarrow> bool list \<Rightarrow> proc \<Rightarrow> proc \<Rightarrow> fan_out" where
  "promise_all w1 w2 arrivals p1 p2 =
     earlier (by_flow AbelSwap (fst (sync p1)) @ by_flow TrinitySwap (fst (sync p2)))
       (deliver w1 w2 arrivals (snd (sync p1)) (snd (sync p2)))"

section \<open>\<open>pollSporeApi\<close>\<close>

text \<open>
  The address \<open>https://www.spore.fun/api/trpc/status,listAgent?batch=1\<close>, its query read
  as search parameters.
\<close>

definition SPORE_API_URL :: URL where
  "SPORE_API_URL =
     \<lparr>endpoint = js ''https://www.spore.fun/api/trpc/status,listAgent'',
      searchParams = [(js ''batch'', js ''1'')]\<rparr>"

definition POLL_INTERVAL_MS :: nat where
  "POLL_INTERVAL_MS = 100"

definition AGENT_ABEL_ID :: int where
  "AGENT_ABEL_ID = 6"

definition AGENT_TRINITY_ID :: int where
  "AGENT_TRINITY_ID = 7"

text \<open>
  Of an \<open>Agent\<close> the program reads \<open>id\<close> and \<open>tokenAddress\<close>; \<open>None\<close> is a \<open>tokenAddress\<close>
  that is \<open>null\<close> or missing, which the optional chaining allows for.
\<close>

record Agent =
  agent_id :: int
  tokenAddress :: "js_string option"

text \<open>
  The program's state: the flag \<open>done\<close>, the events so far, and the delays of the pending
  \<open>setTimeout(pollSporeApi, _)\<close> timers.
\<close>

record state =
  done_latch :: bool
  events :: "event list"
  timers :: "nat list"

text \<open>
  What the outside world does during one call of \<open>pollSporeApi\<close>: \<open>feed\<close> is the outcome of
  fetching the feed, parsing it and reading the agents of \<open>data[1].result.data.json\<close>
  (\<open>Inl\<close> when any of these throws); the rest is how the calls of the two swaps are
  answered and in which order their responses arrive.
\<close>

record outside =
  feed :: "exn + Agent list"
  abelWorld :: world
  trinityWorld :: world
  arrivals :: "bool list"

definition abel :: "Agent list \<Rightarrow> Agent option" where
  "abel agents = List.find (\<lambda>agent. agent_id agent = AGENT_ABEL_ID) agents"

definition trinity :: "Agent list \<Rightarrow> Agent option" where
  "trinity agents = List.find (\<lambda>agent. agent_id agent = AGENT_TRINITY_ID) agents"

text \<open>\<open>agent?.tokenAddress?.trim() ?? ''\<close>\<close>

definition token :: "Agent option \<Rightarrow> js_string" where
  "token agent =
     (case agent of
        None \<Rightarrow> []
      | Some a \<Rightarrow> (case tokenAddress a of None \<Rightarrow> [] | Some address \<Rightarrow> trim address))"

definition abelToken :: "Agent list \<Rightarrow> js_string" where
  "abelToken agents = token (abel agents)"

definition trinityToken :: "Agent list \<Rightarrow> js_string" where
  "trinityToken agents = token (trinity agents)"

definition detected_line :: "js_string \<Rightarrow> js_string \<Rightarrow> console_line" where
  "detected_line a t =
     ConsoleLog [Str (0x0A # js ''=== Detected reveal ==='' @
                      0x0A # js ''Abel tokenAddress: '' @ a @
                      0x0A # js ''Trinity tokenAddress: '' @ t @
                      0x0A # js ''Initiating Jupiter swaps...'')]"

definition polling_error_line :: "exn \<Rightarrow> console_line" where
  "polling_error_line error = ConsoleError [Str (js ''Error polling Spore API:''), Caught error]"

definition add_events :: "event list \<Rightarrow> state \<Rightarrow> state" where
  "add_events es s = s\<lparr>events := events s @ es\<rparr>"

definition setTimeout :: "nat \<Rightarrow> state \<Rightarrow> state" where
  "setTimeout ms s = s\<lparr>timers := timers s @ [ms]\<rparr>"

text \<open>
  The \<open>catch\<close> block, and the \<open>setTimeout\<close> after it. Were the join of the swaps to
  reject, the swap still running would go on while the timer is pending; its events are
  put after the timer is set.
\<close>

definition catch_and_reschedule :: "exn \<Rightarrow> state \<Rightarrow> state" where
  "catch_and_reschedule error s =
     setTimeout POLL_INTERVAL_MS (add_events [(Poller, Printed (polling_error_line error))] s)"

definition pollSporeApi :: "'tx lib \<Rightarrow> outside \<Rightarrow> state \<Rightarrow> state" where
  "pollSporeApi lib out s =
     (if done_latch s then s
      else
        let s1 = add_events [(Poller, Called (FetchJson (Get SPORE_API_URL)))] s in
        case feed out of
          Inl error \<Rightarrow> catch_and_reschedule error s1
        | Inr agents \<Rightarrow>
            if length (abelToken agents) > 0 \<or> length (trinityToken agents) > 0
            then
              let s2 = s1\<lparr>done_latch := True\<rparr>;
                  s3 = add_events
                         [(Poller, Printed (detected_line (abelToken agents) (trinityToken agents)))] s2;
                  swaps = promise_all (abelWorld out) (trinityWorld out) (arrivals out)
                            (buyTokenWithJupiter lib (Some (abelToken agents)))
                            (buyTokenWithJupiter lib (Some (trinityToken agents)));
                  s4 = add_events (settling swaps) s3
              in (case outcome swaps of
                    Inr u \<Rightarrow> s4
                  | Inl error \<Rightarrow> add_events (behind swaps) (catch_and_reschedule error s4))
            else setTimeout POLL_INTERVAL_MS s1)"

text \<open>
  The program: \<open>done\<close> is false, \<open>pollSporeApi()\<close> is called once, and from then on each
  pending timer calls it again. The list gives the outside world of each call in turn; the
  program is followed for as many calls as the list is long.
\<close>

definition initial :: state where
  "initial = \<lparr>done_latch = False, events = [], timers = []\<rparr>"

fun event_loop :: "'tx lib \<Rightarrow> outside list \<Rightarrow> state \<Rightarrow> state" where
  "event_loop lib [] s = s"
| "event_loop lib (out # outs) s =
     (case timers s of
        [] \<Rightarrow> s
      | t # ts \<Rightarrow> event_loop lib outs (pollSporeApi lib out (s\<lparr>timers := ts\<rparr>)))"

definition program :: "'tx lib \<Rightarrow> outside list \<Rightarrow> state" where
  "program lib outs =
     (case outs of
        [] \<Rightarrow> initial
      | out # rest \<Rightarrow> event_loop lib rest (pollSporeApi lib out initial))"

text \<open>
  The execution phase is entered where \<open>pollSporeApi\<close> prints its one \<open>console.log\<close> line,
  between setting \<open>done\<close> and the fan-out.
\<close>

fun enters_phase :: "event \<Rightarrow> bool" where
  "enters_phase (Poller, Printed (ConsoleLog args)) = True"
| "enters_phase e = False"

definition phase_entries :: "event list \<Rightarrow> nat" where
  "phase_entries es = length (filter enters_phase es)"

definition events_of :: "flow \<Rightarrow> event list \<Rightarrow> effect list" where
  "events_of f es = map snd (filter (\<lambda>e. fst e = f) es)"

section \<open>Sample worlds\<close>

text \<open>A wallet library whose transactions are byte strings, signing putting a byte in front.\<close>

definition sample_lib :: "bytes lib" where
  "sample_lib =
     \<lparr>publicKey = js ''Wallet1'',
      deserialize = (\<lambda>swapTransaction. Inr [1, 2, 3]),
      sign = (\<lambda>transaction. Inr (0 # transaction)),
      serialize = (\<lambda>transaction. Inr transaction)\<rparr>"

text \<open>A world in which every external call succeeds.\<close>

definition good_world :: world where
  "good_world =
     \<lparr>fetch = (\<lambda>r. case r of
                  Get u \<Rightarrow> Inr (JObj [(js ''outAmount'', JStr (js ''42''))])
                | Post a h b \<Rightarrow> Inr (JObj [(js ''swapTransaction'', JStr (js ''AQID''))])),
      sendRawTransaction = (\<lambda>b opts. Inr (js ''5Sig'')),
      getLatestBlockhash = Inr \<lparr>blockhash = js ''Hash1'', lastValidBlockHeight = 100\<rparr>,
      confirmTransaction = (\<lambda>c. Inr \<lparr>rpc_context = 1, rpc_value = \<lparr>err = Some JNull\<rparr>\<rparr>)\<rparr>"



text \<open>A world in which the network is down: every fetch throws.\<close>

definition offline_world :: world where
  "offline_world = good_world\<lparr>fetch := (\<lambda>r. Inl (External (js ''fetch failed'')))\<rparr>"

text \<open>Sample snapshots, and an outside world around a feed outcome.\<close>

definition scenario_B_agents :: "Agent list" where
  "scenario_B_agents =
     [\<lparr>agent_id = 6, tokenAddress = Some (js ''Mint1'')\<rparr>,
      \<lparr>agent_id = 7, tokenAddress = Some []\<rparr>]"

definition duplicate_agents :: "Agent list" where
  "duplicate_agents =
     [\<lparr>agent_id = 6, tokenAddress = Some []\<rparr>,
      \<lparr>agent_id = 6, tokenAddress = Some (js ''Mint1'')\<rparr>]"

definition both_revealed_agents :: "Agent list" where
  "both_revealed_agents =
     [\<lparr>agent_id = 7, tokenAddress = Some (js '' Mint2  '')\<rparr>,
      \<lparr>agent_id = 6, tokenAddress = Some (js ''Mint1'')\<rparr>]"

definition sample_outside :: "exn + Agent list \<Rightarrow> outside" where
  "sample_outside f =
     \<lparr>feed = f, abelWorld = good_world, trinityWorld = offline_world, arrivals = [True, False]\<rparr>"

text \<open>Any sequence of calls of \<open>pollSporeApi\<close>, whether a timer asked for them or not.\<close>

definition calls_in_turn :: "'tx lib \<Rightarrow> outside list \<Rightarrow> state \<Rightarrow> state" where
  "calls_in_turn lib outs s = foldl (\<lambda>s out. pollSporeApi lib out s) s outs"

text \<open>
  What holds of the state throughout: the execution phase was entered at most once, and not
  at all while \<open>done\<close> is false.
\<close>

definition latch_inv :: "state \<Rightarrow> bool" where
  "latch_inv s \<longleftrightarrow>
     phase_entries (events s) \<le> 1 \<and> (\<not> done_latch s \<longrightarrow> phase_entries (events s) = 0)"

text \<open>A world whose swap service gives a quote and then fails to build the transaction.\<close>

definition build_fails_world :: world where
  "build_fails_world =
     good_world\<lparr>fetch := (\<lambda>r. case r of
                               Get u \<Rightarrow> Inr (JObj [(js ''outAmount'', JStr (js ''42''))])
                             | Post a h b \<Rightarrow> Inl (External (js ''build failed'')))\<rparr>"

text \<open>
  What the two swaps have done so far: nothing, or what one fan-out does, namely the one
  of a call of \<open>pollSporeApi\<close> whose outside world is in the given set.
\<close>

definition no_swap_yet :: "state \<Rightarrow> bool" where
  "no_swap_yet s \<longleftrightarrow>
     events_of AbelSwap (events s) = [] \<and> events_of TrinitySwap (events s) = []"

definition one_fan_out :: "'tx lib \<Rightarrow> outside set \<Rightarrow> state \<Rightarrow> bool" where
  "one_fan_out lib outs s \<longleftrightarrow>
     (\<exists>out\<in>outs. \<exists>agents. feed out = Inr agents \<and>
        events_of AbelSwap (events s) =
          fst (run (abelWorld out) (buyTokenWithJupiter lib (Some (abelToken agents)))) \<and>
        events_of TrinitySwap (events s) =
          fst (run (trinityWorld out) (buyTokenWithJupiter lib (Some (trinityToken agents)))))"

definition fan_out_inv :: "'tx lib \<Rightarrow> outside set \<Rightarrow> state \<Rightarrow> bool" where
  "fan_out_inv lib outs s \<longleftrightarrow>
     (\<not> done_latch s \<longrightarrow> no_swap_yet s) \<and> (no_swap_yet s \<or> one_fan_out lib outs s)"

section \<open>Auxiliary facts\<close>

lemma trim_Nil [simp]: "trim [] = []"
  by (simp add: trim_def)

lemma trim_Nil_iff: "trim s = [] \<longleftrightarrow> (\<forall>c\<in>set s. blank c)"
proof -
  have "dropWhile blank s = [] \<or> \<not> blank (hd (dropWhile blank s))"
    by (metis hd_dropWhile)
  then show ?thesis
    unfolding trim_def
    by (auto dest: set_dropWhileD)
       (metis dropWhile_eq_Nil_conv list.set_sel(1))+
qed

lemma run_try_catch:
  "run w (try_catch p h) =
     (case snd (run w p) of
        Inr u \<Rightarrow> (fst (run w p), Inr u)
      | Inl e \<Rightarrow> (fst (run w p) @ fst (run w (h e)), snd (run w (h e))))"
  by (induction p) (auto split: sum.splits)

lemma run_sync:
  "run w p = (fst (sync p) @ fst (finish w (snd (sync p))), snd (finish w (snd (sync p))))"
  by (induction p) auto

lemma finish_resume:
  "finish w p = (fst (resume w p) @ fst (finish w (snd (resume w p))),
                 snd (finish w (snd (resume w p))))"
proof (cases p)
  case (Console l q)
  then show ?thesis using run_sync [of w "Console l q"] by simp
qed (simp_all add: run_sync)

lemma events_of_append [simp]: "events_of f (xs @ ys) = events_of f xs @ events_of f ys"
  by (simp add: events_of_def)

lemma events_of_by_flow [simp]: "events_of f (by_flow g es) = (if f = g then es else [])"
  by (induction es) (auto simp: events_of_def by_flow_def)

lemma interleave_AbelSwap:
  "events_of AbelSwap (interleave w1 w2 bs p1 p2) = fst (finish w1 p1)"
proof (induction w1 w2 bs p1 p2 rule: interleave.induct)
  case (2 w1 w2 bs p1 p2)
  then show ?case using finish_resume [of w1 p1] by simp
qed simp_all

lemma interleave_TrinitySwap:
  "events_of TrinitySwap (interleave w1 w2 bs p1 p2) = fst (finish w2 p2)"
proof (induction w1 w2 bs p1 p2 rule: interleave.induct)
  case (3 w1 w2 bs p1 p2)
  then show ?case using finish_resume [of w2 p2] by simp
qed simp_all

lemma interleave_Poller:
  "events_of Poller (interleave w1 w2 bs p1 p2) = []"
  by (induction w1 w2 bs p1 p2 rule: interleave.induct) simp_all

lemma by_flow_Nil [simp]: "by_flow f [] = []"
  by (simp add: by_flow_def)

lemma interleave_settled [simp]: "interleave w1 w2 bs Return Return = []"
proof (induction bs)
  case Nil
  show ?case by simp
next
  case (Cons b bs)
  then show ?case by (cases b) simp_all
qed

lemma earlier_simps [simp]:
  "settling (earlier es j) = es @ settling j"
  "outcome (earlier es j) = outcome j"
  "behind (earlier es j) = behind j"
  by (simp_all add: earlier_def)

lemma settled_join_resolved:
  "settled_join p1 p2 = Some (Inr ()) \<longleftrightarrow> p1 = Return \<and> p2 = Return"
  by (cases p1; cases p2) (simp_all add: settled_join_def)

lemma settled_join_rejected:
  "settled_join p1 p2 = Some (Inl e) \<Longrightarrow>
     snd (finish w1 p1) \<noteq> Inr () \<or> snd (finish w2 p2) \<noteq> Inr ()"
  by (cases p1; cases p2) (simp_all add: settled_join_def)

lemma deliver_all:
  "settling (deliver w1 w2 bs p1 p2) @ behind (deliver w1 w2 bs p1 p2) =
     interleave w1 w2 bs p1 p2"
  by (induction w1 w2 bs p1 p2 rule: deliver.induct)
     (simp_all split: option.splits sum.splits)

lemma deliver_resolves:
  "outcome (deliver w1 w2 bs p1 p2) = Inr () \<longleftrightarrow>
     snd (finish w1 p1) = Inr () \<and> snd (finish w2 p2) = Inr ()"
proof (induction w1 w2 bs p1 p2 rule: deliver.induct)
  case (1 w1 w2 p1 p2)
  show ?case
  proof (cases "settled_join p1 p2")
    case None
    then show ?thesis by (simp split: sum.splits)
  next
    case (Some r)
    then show ?thesis
      using settled_join_resolved [of p1 p2] settled_join_rejected [of p1 p2 _ w1 w2]
      by (cases r) auto
  qed
next
  case (2 w1 w2 bs p1 p2)
  show ?case
  proof (cases "settled_join p1 p2")
    case None
    with 2 show ?thesis using finish_resume [of w1 p1] by simp
  next
    case (Some r)
    then show ?thesis
      using settled_join_resolved [of p1 p2] settled_join_rejected [of p1 p2 _ w1 w2]
      by (cases r) auto
  qed
next
  case (3 w1 w2 bs p1 p2)
  show ?case
  proof (cases "settled_join p1 p2")
    case None
    with 3 show ?thesis using finish_resume [of w2 p2] by simp
  next
    case (Some r)
    then show ?thesis
      using settled_join_resolved [of p1 p2] settled_join_rejected [of p1 p2 _ w1 w2]
      by (cases r) auto
  qed
qed

lemma deliver_nothing_behind:
  "outcome (deliver w1 w2 bs p1 p2) = Inr () \<Longrightarrow> behind (deliver w1 w2 bs p1 p2) = []"
proof (induction w1 w2 bs p1 p2 rule: deliver.induct)
  case (1 w1 w2 p1 p2)
  then show ?case
    using settled_join_resolved [of p1 p2]
    by (auto split: option.splits sum.splits)
next
  case (2 w1 w2 bs p1 p2)
  then show ?case
    using settled_join_resolved [of p1 p2]
    by (auto split: option.splits)
next
  case (3 w1 w2 bs p1 p2)
  then show ?case
    using settled_join_resolved [of p1 p2]
    by (auto split: option.splits)
qed

lemma promise_all_resolves:
  "outcome (promise_all w1 w2 bs p1 p2) = Inr () \<longleftrightarrow>
     snd (run w1 p1) = Inr () \<and> snd (run w2 p2) = Inr ()"
  using run_sync [of w1 p1] run_sync [of w2 p2]
  by (simp add: promise_all_def deliver_resolves)

lemma promise_all_nothing_behind:
  "outcome (promise_all w1 w2 bs p1 p2) = Inr () \<Longrightarrow> behind (promise_all w1 w2 bs p1 p2) = []"
  by (simp add: promise_all_def deliver_nothing_behind)

lemma promise_all_all:
  "settling (promise_all w1 w2 bs p1 p2) @ behind (promise_all w1 w2 bs p1 p2) =
     by_flow AbelSwap (fst (sync p1)) @ by_flow TrinitySwap (fst (sync p2)) @
     interleave w1 w2 bs (snd (sync p1)) (snd (sync p2))"
  by (simp add: promise_all_def deliver_all)

lemma promise_all_events:
  assumes "outcome (promise_all w1 w2 bs p1 p2) = Inr ()"
  shows "events_of AbelSwap (settling (promise_all w1 w2 bs p1 p2)) = fst (run w1 p1)"
    and "events_of TrinitySwap (settling (promise_all w1 w2 bs p1 p2)) = fst (run w2 p2)"
    and "events_of Poller (settling (promise_all w1 w2 bs p1 p2)) = []"
proof -
  have all: "settling (promise_all w1 w2 bs p1 p2) =
     by_flow AbelSwap (fst (sync p1)) @ by_flow TrinitySwap (fst (sync p2)) @
     interleave w1 w2 bs (snd (sync p1)) (snd (sync p2))"
    using promise_all_all [of w1 w2 bs p1 p2] promise_all_nothing_behind [OF assms] by simp
  show "events_of AbelSwap (settling (promise_all w1 w2 bs p1 p2)) = fst (run w1 p1)"
    using run_sync [of w1 p1] by (simp add: all interleave_AbelSwap)
  show "events_of TrinitySwap (settling (promise_all w1 w2 bs p1 p2)) = fst (run w2 p2)"
    using run_sync [of w2 p2] by (simp add: all interleave_TrinitySwap)
  show "events_of Poller (settling (promise_all w1 w2 bs p1 p2)) = []"
    by (simp add: all interleave_Poller)
qed

lemma promise_all_rejects_early:
  "outcome (promise_all w1 w2 bs (Throw e) p2) = Inl e"
  "settling (promise_all w1 w2 bs (Throw e) p2) = by_flow TrinitySwap (fst (sync p2))"
  "behind (promise_all w1 w2 bs (Throw e) p2) = interleave w1 w2 bs (Throw e) (snd (sync p2))"
proof -
  have "deliver w1 w2 bs (Throw e) q =
      \<lparr>settling = [], outcome = Inl e, behind = interleave w1 w2 bs (Throw e) q\<rparr>" for q
    by (cases "(w1, w2, bs, Throw e, q)" rule: deliver.cases) (simp_all add: settled_join_def)
  then show "outcome (promise_all w1 w2 bs (Throw e) p2) = Inl e"
    and "settling (promise_all w1 w2 bs (Throw e) p2) = by_flow TrinitySwap (fst (sync p2))"
    and "behind (promise_all w1 w2 bs (Throw e) p2) = interleave w1 w2 bs (Throw e) (snd (sync p2))"
    by (simp_all add: promise_all_def)
qed

lemma promise_all_no_Poller:
  "events_of Poller (settling (promise_all w1 w2 bs p1 p2)) = []"
proof -
  have "events_of Poller
          (settling (promise_all w1 w2 bs p1 p2) @ behind (promise_all w1 w2 bs p1 p2)) = []"
    by (simp only: promise_all_all) (simp add: interleave_Poller)
  then show ?thesis by simp
qed

lemma buy_resolves: "snd (run w (buyTokenWithJupiter lib mint)) = Inr ()"
  by (auto simp: buyTokenWithJupiter_def run_try_catch split: option.splits sum.splits)

lemma unat_of_char: "unat (of_char c :: 16 word) = of_char c"
proof -
  have "(of_char c :: nat) < 2 ^ LENGTH(16)"
    by (rule less_trans [OF nat_of_char_less_256]) simp
  then show ?thesis
    by (rule of_nat_inverse [OF of_nat_of_char])
qed

lemma of_char_word_inject [simp]: "(of_char c :: 16 word) = of_char d \<longleftrightarrow> c = d"
proof
  assume "(of_char c :: 16 word) = of_char d"
  then have "unat (of_char c :: 16 word) = unat (of_char d :: 16 word)" by simp
  then show "c = d" by (simp add: unat_of_char)
qed simp

lemma js_inject [simp]: "js s = js t \<longleftrightarrow> s = t"
proof -
  have "inj (of_char :: char \<Rightarrow> 16 word)"
    by (rule injI) simp
  then show ?thesis
    by (simp add: js_def)
qed

lemma js_append: "js s @ js t = js (s @ t)" "js s @ js t @ r = js (s @ t) @ r"
  by (simp_all add: js_def)

lemma js_Nil [simp]: "js [] = []"
  by (simp add: js_def)

lemma js_eq_Nil [simp]: "js s = [] \<longleftrightarrow> s = []"
  by (simp add: js_def)


lemma toString_numeral:
  "toString (numeral k) =
     (if numeral k < (10::nat) then [of_nat (48 + numeral k)]
      else toString (numeral k div 10) @ [of_nat (48 + numeral k mod 10)])"
  by (rule toString.simps)

lemma toString_one: "toString (Suc 0) = [49]"
  by (simp add: toString.simps [of "Suc 0"])

lemma amount_string: "toString amountLamports = js ''1000000000''"
  by (simp add: amountLamports_def toString_numeral toString_one js_def)

lemma slippage_string: "toString slippageBps = js ''5000''"
  by (simp add: slippageBps_def toString_numeral js_def)

lemma of_char_no_surrogate [simp]:
  "\<not> leading_surrogate (of_char c)" "\<not> trailing_surrogate (of_char c)"
proof -
  have "unat (of_char c :: 16 word) < 256"
    by (simp add: unat_of_char)
  then show "\<not> leading_surrogate (of_char c)" "\<not> trailing_surrogate (of_char c)"
    by (simp_all add: leading_surrogate_def trailing_surrogate_def word_le_nat_alt)
qed

lemma to_usv_js [simp]: "to_usv (js s) = js s"
  unfolding js_def by (induction s rule: induct_list012) simp_all

lemma quoteUrl_eq:
  "quoteUrl mint =
     \<lparr>endpoint = js ''https://quote-api.jup.ag/v6/quote'',
      searchParams =
        [(js ''inputMint'', js ''So11111111111111111111111111111111111111112''),
         (js ''outputMint'', to_usv mint),
         (js ''amount'', js ''1000000000''),
         (js ''slippageBps'', js ''5000'')]\<rparr>"
  by (simp add: quoteUrl_def searchParams_set_def set_pair_def amount_string slippage_string)

lemma emit_run: "run w (emit ls Return) = (map Printed ls, Inr ())"
  by (induction ls) (simp_all add: emit_def)

lemma swap_success:
  assumes "trim mint \<noteq> []"
    and "fetch w (Get (quoteUrl mint)) = Inr quoteResponse"
    and "truthy quoteResponse" "\<not> truthy_opt (property quoteResponse (js ''error''))"
    and "fetch w (swap_request lib quoteResponse) = Inr swapResponse"
    and "truthy swapResponse" "\<not> truthy_opt (property swapResponse (js ''error''))"
    and "property swapResponse (js ''swapTransaction'') = Some swapTransaction"
    and "truthy swapTransaction"
    and "deserialize lib swapTransaction = Inr transaction"
    and "sign lib transaction = Inr signedTx"
    and "serialize lib signedTx = Inr rawTransaction"
    and "sendRawTransaction w rawTransaction \<lparr>skipPreflight = True, maxRetries = 2\<rparr> = Inr txid"
    and "getLatestBlockhash w = Inr latest"
    and "confirmTransaction w \<lparr>blockhash = blockhash latest,
           lastValidBlockHeight = lastValidBlockHeight latest, signature = txid\<rparr> = Inr confirmation"
  shows "run w (buyTokenWithJupiter lib (Some mint)) =
     ([Printed (attempt_line mint),
       Called (FetchJson (Get (quoteUrl mint))),
       Called (FetchJson (swap_request lib quoteResponse)),
       Called (SendRawTransaction rawTransaction \<lparr>skipPreflight = True, maxRetries = 2\<rparr>),
       Called GetLatestBlockhash,
       Called (ConfirmTransaction \<lparr>blockhash = blockhash latest,
           lastValidBlockHeight = lastValidBlockHeight latest, signature = txid\<rparr>)] @
      map Printed (handleTxConfirmation txid confirmation), Inr ())"
proof -
  have "run w (swap_steps lib mint) = 
     ([Printed (attempt_line mint),
       Called (FetchJson (Get (quoteUrl mint))),
       Called (FetchJson (swap_request lib quoteResponse)),
       Called (SendRawTransaction rawTransaction \<lparr>skipPreflight = True, maxRetries = 2\<rparr>),
       Called GetLatestBlockhash,
       Called (ConfirmTransaction \<lparr>blockhash = blockhash latest,
           lastValidBlockHeight = lastValidBlockHeight latest, signature = txid\<rparr>)] @
      map Printed (handleTxConfirmation txid confirmation), Inr ())"
    using assms
    by (simp add: swap_steps_def request_swap_def deserialize_and_sign_def send_and_confirm_def
        or_throw_def emit_run)
  with assms(1) show ?thesis
    by (auto simp: buyTokenWithJupiter_def run_try_catch)
qed


lemma calls_append [simp]: "calls (xs @ ys) = calls xs @ calls ys"
  by (induction xs rule: calls.induct) simp_all

lemma calls_printed [simp]: "calls (map Printed ls) = []"
  by (induction ls) simp_all

lemma send_and_confirm_order:
  "map stage (calls (fst (run w (send_and_confirm raw)))) \<in> {[2], [2, 3], [2, 3, 4]}"
  by (simp add: send_and_confirm_def or_throw_def emit_run split: sum.splits)

lemma deserialize_and_sign_order:
  "map stage (calls (fst (run w (deserialize_and_sign lib t)))) \<in> {[], [2], [2, 3], [2, 3, 4]}"
  using send_and_confirm_order [of w]
  by (auto simp: deserialize_and_sign_def or_throw_def split: sum.splits)

lemma request_swap_order:
  "map stage (calls (fst (run w (request_swap lib q)))) \<in> {[1], [1, 2], [1, 2, 3], [1, 2, 3, 4]}"
  using deserialize_and_sign_order [of w lib]
  by (auto simp: request_swap_def swap_request_def or_throw_def split: sum.splits option.splits)

lemma swap_steps_order:
  "map stage (calls (fst (run w (swap_steps lib mint)))) \<in>
     {[0], [0, 1], [0, 1, 2], [0, 1, 2, 3], [0, 1, 2, 3, 4]}"
  using request_swap_order [of w lib]
  by (auto simp: swap_steps_def or_throw_def split: sum.splits)

lemma buy_order:
  "trim m \<noteq> [] \<Longrightarrow> map stage (calls (fst (run w (buyTokenWithJupiter lib (Some m))))) \<in>
     {[0], [0, 1], [0, 1, 2], [0, 1, 2, 3], [0, 1, 2, 3, 4]}"
  using swap_steps_order [of w lib m]
  by (auto simp: buyTokenWithJupiter_def run_try_catch failed_line_def split: sum.splits)

lemma trim_Mint1: "trim (js ''Mint1'') = js ''Mint1''"
  by (simp add: trim_def js_def blank_def WhiteSpace_def LineTerminator_def)

lemma add_events_simps [simp]:
  "done_latch (add_events es s) = done_latch s"
  "events (add_events es s) = events s @ es"
  "timers (add_events es s) = timers s"
  by (simp_all add: add_events_def)

lemma setTimeout_simps [simp]:
  "done_latch (setTimeout ms s) = done_latch s"
  "events (setTimeout ms s) = events s"
  "timers (setTimeout ms s) = timers s @ [ms]"
  by (simp_all add: setTimeout_def)

lemma poll_done: "done_latch s \<Longrightarrow> pollSporeApi lib out s = s"
  by (simp add: pollSporeApi_def)

lemma swaps_resolve:
  "outcome (promise_all w1 w2 bs (buyTokenWithJupiter lib a) (buyTokenWithJupiter lib b)) = Inr ()"
  by (simp add: promise_all_resolves buy_resolves)

lemma poll_feed_error:
  assumes "\<not> done_latch s" "feed out = Inl error"
  shows "pollSporeApi lib out s =
     s\<lparr>events := events s @ [(Poller, Called (FetchJson (Get SPORE_API_URL))),
                               (Poller, Printed (polling_error_line error))],
       timers := timers s @ [POLL_INTERVAL_MS]\<rparr>"
  using assms
  by (simp add: pollSporeApi_def catch_and_reschedule_def add_events_def setTimeout_def)

lemma poll_no_reveal:
  assumes "\<not> done_latch s" "feed out = Inr agents" "abelToken agents = []" "trinityToken agents = []"
  shows "pollSporeApi lib out s =
     s\<lparr>events := events s @ [(Poller, Called (FetchJson (Get SPORE_API_URL)))],
       timers := timers s @ [POLL_INTERVAL_MS]\<rparr>"
  using assms
  by (simp add: pollSporeApi_def add_events_def setTimeout_def)

lemma poll_reveal:
  assumes "\<not> done_latch s" "feed out = Inr agents" "abelToken agents \<noteq> [] \<or> trinityToken agents \<noteq> []"
  shows "pollSporeApi lib out s =
     s\<lparr>done_latch := True,
       events := events s @
         [(Poller, Called (FetchJson (Get SPORE_API_URL))),
          (Poller, Printed (detected_line (abelToken agents) (trinityToken agents)))] @
         settling (promise_all (abelWorld out) (trinityWorld out) (arrivals out)
                (buyTokenWithJupiter lib (Some (abelToken agents)))
                (buyTokenWithJupiter lib (Some (trinityToken agents))))\<rparr>"
  using assms
  by (auto simp: pollSporeApi_def add_events_def Let_def swaps_resolve)

lemma enters_phase_Poller: "enters_phase e \<Longrightarrow> fst e = Poller"
  by (cases e rule: enters_phase.cases) simp_all

lemma no_Poller_no_entry: "events_of Poller es = [] \<Longrightarrow> filter enters_phase es = []"
  by (auto simp: events_of_def filter_empty_conv dest: enters_phase_Poller)

lemma phase_entries_append [simp]:
  "phase_entries (xs @ ys) = phase_entries xs + phase_entries ys"
  by (simp add: phase_entries_def)

lemma phase_entries_Nil [simp]: "phase_entries [] = 0"
  by (simp add: phase_entries_def)

lemma phase_entries_Cons [simp]:
  "phase_entries (e # es) = (if enters_phase e then 1 else 0) + phase_entries es"
  by (simp add: phase_entries_def)

lemma phase_entries_swaps [simp]:
  "phase_entries (settling (promise_all w1 w2 bs p1 p2)) = 0"
  by (simp add: phase_entries_def no_Poller_no_entry promise_all_no_Poller)

lemma poll_inv: "latch_inv s \<Longrightarrow> latch_inv (pollSporeApi lib out s)"
proof (cases "done_latch s")
  case True
  assume "latch_inv s"
  with True show ?thesis by (simp add: poll_done)
next
  case False
  assume inv: "latch_inv s"
  show ?thesis
  proof (cases "feed out")
    case (Inl error)
    with False inv show ?thesis
      by (simp add: poll_feed_error latch_inv_def polling_error_line_def)
  next
    case (Inr agents)
    show ?thesis
    proof (cases "abelToken agents = [] \<and> trinityToken agents = []")
      case True
      with False Inr inv show ?thesis
        by (simp add: poll_no_reveal latch_inv_def)
    next
      case False
      with \<open>\<not> done_latch s\<close> Inr inv show ?thesis
        using poll_reveal [of s out agents lib]
        by (auto simp: latch_inv_def detected_line_def)
    qed
  qed
qed

lemma popped_inv: "latch_inv s \<Longrightarrow> latch_inv (s\<lparr>timers := ts\<rparr>)"
  by (simp add: latch_inv_def)

lemma event_loop_inv: "latch_inv s \<Longrightarrow> latch_inv (event_loop lib outs s)"
  by (induction lib outs s rule: event_loop.induct)
     (auto simp: poll_inv popped_inv split: list.splits)

lemma event_loop_latch: "done_latch s \<Longrightarrow> done_latch (event_loop lib outs s)"
  by (induction lib outs s rule: event_loop.induct)
     (auto simp: poll_done split: list.splits)

lemma event_loop_no_timer: "timers s = [] \<Longrightarrow> event_loop lib outs s = s"
  by (cases outs) simp_all

lemma event_loop_append:
  "event_loop lib (outs @ later) s = event_loop lib later (event_loop lib outs s)"
  by (induction lib outs s rule: event_loop.induct)
     (auto simp: event_loop_no_timer split: list.splits)

lemma initial_inv: "latch_inv initial"
  by (simp add: latch_inv_def initial_def)

lemma program_inv: "latch_inv (program lib outs)"
  by (cases outs) (simp_all add: program_def initial_inv poll_inv event_loop_inv)

lemma program_append:
  "outs \<noteq> [] \<Longrightarrow> program lib (outs @ later) = event_loop lib later (program lib outs)"
  by (cases outs) (simp_all add: program_def event_loop_append)

lemma calls_in_turn_inv: "latch_inv s \<Longrightarrow> latch_inv (calls_in_turn lib outs s)"
  unfolding calls_in_turn_def
  by (induction outs arbitrary: s) (simp_all add: poll_inv)

lemma calls_in_turn_latch: "done_latch s \<Longrightarrow> calls_in_turn lib outs s = s"
  unfolding calls_in_turn_def
  by (induction outs arbitrary: s) (simp_all add: poll_done)

lemma events_of_Nil [simp]: "events_of f [] = []"
  by (simp add: events_of_def)

lemma events_of_Cons [simp]:
  "events_of f (e # es) = (if fst e = f then snd e # events_of f es else events_of f es)"
  by (simp add: events_of_def)


lemma token_nonempty:
  "token agent \<noteq> [] \<longleftrightarrow>
     (\<exists>a address. agent = Some a \<and> tokenAddress a = Some address \<and> trim address \<noteq> [])"
  by (auto simp: token_def split: option.splits)

lemma token_found:
  "agent = Some a \<Longrightarrow> tokenAddress a = Some address \<Longrightarrow> token agent = trim address"
  by (simp add: token_def)

lemma trim_spaces: "trim (js ''   '') = []"
  by (simp add: trim_def js_def blank_def WhiteSpace_def)

lemma trim_Addr123: "trim (js ''  Addr123  '') = js ''Addr123''"
  by (simp add: trim_def js_def blank_def WhiteSpace_def LineTerminator_def)

lemma interleave_second_settled:
  "interleave w1 w2 bs p1 Return = by_flow AbelSwap (fst (finish w1 p1))"
proof (induction bs arbitrary: p1)
  case Nil
  show ?case by simp
next
  case (Cons b bs)
  show ?case
  proof (cases b)
    case True
    with Cons show ?thesis by simp
  next
    case False
    with Cons show ?thesis
      using finish_resume [of w1 p1] by (simp add: by_flow_def)
  qed
qed

lemma sync_blank: "sync (buyTokenWithJupiter lib (Some [])) = ([Printed (invalid_line (Some []))], Return)"
  by (simp add: buyTokenWithJupiter_def)

lemma sync_nonblank:
  "trim m \<noteq> [] \<Longrightarrow>
   fst (sync (buyTokenWithJupiter lib (Some m))) =
     [Printed (attempt_line m), Called (FetchJson (Get (quoteUrl m)))]"
  by (auto simp: buyTokenWithJupiter_def swap_steps_def)

lemma finish_is_rest:
  "fst (finish w (snd (sync p))) = drop (length (fst (sync p))) (fst (run w p))"
  using run_sync [of w p] by simp

lemma fan_out_one_blank:
  assumes "trim m \<noteq> []"
  shows "settling (promise_all w1 w2 bs (buyTokenWithJupiter lib (Some m))
                (buyTokenWithJupiter lib (Some []))) =
     [(AbelSwap, Printed (attempt_line m)),
      (AbelSwap, Called (FetchJson (Get (quoteUrl m)))),
      (TrinitySwap, Printed (invalid_line (Some [])))] @
     by_flow AbelSwap (drop 2 (fst (run w1 (buyTokenWithJupiter lib (Some m)))))"
proof -
  have "behind (promise_all w1 w2 bs (buyTokenWithJupiter lib (Some m))
                  (buyTokenWithJupiter lib (Some []))) = []"
    by (simp add: promise_all_nothing_behind swaps_resolve)
  then have "settling (promise_all w1 w2 bs (buyTokenWithJupiter lib (Some m))
                (buyTokenWithJupiter lib (Some []))) =
      by_flow AbelSwap (fst (sync (buyTokenWithJupiter lib (Some m)))) @
      by_flow TrinitySwap (fst (sync (buyTokenWithJupiter lib (Some [])))) @
      interleave w1 w2 bs (snd (sync (buyTokenWithJupiter lib (Some m))))
        (snd (sync (buyTokenWithJupiter lib (Some []))))"
    using promise_all_all [of w1 w2 bs "buyTokenWithJupiter lib (Some m)"
        "buyTokenWithJupiter lib (Some [])"]
    by simp
  then show ?thesis
    using finish_is_rest [of w1 "buyTokenWithJupiter lib (Some m)"]
    by (simp add: sync_blank sync_nonblank [OF assms] interleave_second_settled by_flow_def
        numeral_2_eq_2)
qed

lemma scenario_B_tokens:
  "abelToken scenario_B_agents = js ''Mint1''" "trinityToken scenario_B_agents = []"
  by (simp_all add: abelToken_def trinityToken_def abel_def trinity_def token_def
      scenario_B_agents_def AGENT_ABEL_ID_def AGENT_TRINITY_ID_def trim_Mint1)

lemma no_agents_tokens: "abelToken [] = []" "trinityToken [] = []"
  by (simp_all add: abelToken_def trinityToken_def abel_def trinity_def token_def)

lemma duplicate_tokens: "abelToken duplicate_agents = []" "trinityToken duplicate_agents = []"
  by (simp_all add: abelToken_def trinityToken_def abel_def trinity_def token_def
      duplicate_agents_def AGENT_ABEL_ID_def AGENT_TRINITY_ID_def)

lemma sample_outside_simps [simp]:
  "feed (sample_outside f) = f"
  "abelWorld (sample_outside f) = good_world"
  "trinityWorld (sample_outside f) = offline_world"
  "arrivals (sample_outside f) = [True, False]"
  by (simp_all add: sample_outside_def)

lemma initial_simps [simp]:
  "done_latch initial = False" "events initial = []" "timers initial = []"
  by (simp_all add: initial_def)

lemma quiet_then_reveal:
  "done_latch (program sample_lib [sample_outside (Inr []), sample_outside (Inr scenario_B_agents)])"
  by (simp add: program_def poll_no_reveal no_agents_tokens poll_reveal scenario_B_tokens)

lemma trim_Mint2: "trim (js ''Mint2'') = js ''Mint2''"
  by (simp add: trim_def js_def blank_def WhiteSpace_def LineTerminator_def)

lemma build_fails_run:
  "run build_fails_world (buyTokenWithJupiter sample_lib (Some (js ''Mint1''))) =
     ([Printed (attempt_line (js ''Mint1'')),
       Called (FetchJson (Get (quoteUrl (js ''Mint1'')))),
       Called (FetchJson (swap_request sample_lib (JObj [(js ''outAmount'', JStr (js ''42''))]))),
       Printed (failed_line (External (js ''build failed'')))],
      Inr ())"
  by (simp add: buyTokenWithJupiter_def trim_Mint1 run_try_catch swap_steps_def request_swap_def
      or_throw_def build_fails_world_def good_world_def swap_request_def)

lemma good_run_Mint2:
  "run good_world (buyTokenWithJupiter sample_lib (Some (js ''Mint2''))) =
     ([Printed (attempt_line (js ''Mint2'')),
       Called (FetchJson (Get (quoteUrl (js ''Mint2'')))),
       Called (FetchJson (swap_request sample_lib (JObj [(js ''outAmount'', JStr (js ''42''))]))),
       Called (SendRawTransaction [0, 1, 2, 3] \<lparr>skipPreflight = True, maxRetries = 2\<rparr>),
       Called GetLatestBlockhash,
       Called (ConfirmTransaction
         \<lparr>blockhash = js ''Hash1'', lastValidBlockHeight = 100, signature = js ''5Sig''\<rparr>),
       Printed (ConsoleLog [Str (js ''Swap successful!'')]),
       Printed (ConsoleLog [Str (js ''View on Solscan: https://solscan.io/tx/5Sig'')])],
      Inr ())"
  by (simp add: buyTokenWithJupiter_def trim_Mint2 run_try_catch swap_steps_def request_swap_def
      deserialize_and_sign_def send_and_confirm_def or_throw_def emit_run
      good_world_def sample_lib_def swap_request_def handleTxConfirmation_def js_append)

lemma joint_trace_build_fails:
  "settling (promise_all build_fails_world good_world [True, False, False, True, True]
             (buyTokenWithJupiter sample_lib (Some (js ''Mint1'')))
             (buyTokenWithJupiter sample_lib (Some (js ''Mint2'')))) =
     [(AbelSwap, Printed (attempt_line (js ''Mint1''))),
      (AbelSwap, Called (FetchJson (Get (quoteUrl (js ''Mint1''))))),
      (TrinitySwap, Printed (attempt_line (js ''Mint2''))),
      (TrinitySwap, Called (FetchJson (Get (quoteUrl (js ''Mint2''))))),
      (TrinitySwap, Called (FetchJson (swap_request sample_lib (JObj [(js ''outAmount'', JStr (js ''42''))])))),
      (AbelSwap, Called (FetchJson (swap_request sample_lib (JObj [(js ''outAmount'', JStr (js ''42''))])))),
      (AbelSwap, Printed (failed_line (External (js ''build failed'')))),
      (TrinitySwap, Called (SendRawTransaction [0, 1, 2, 3] \<lparr>skipPreflight = True, maxRetries = 2\<rparr>)),
      (TrinitySwap, Called GetLatestBlockhash),
      (TrinitySwap, Called (ConfirmTransaction
        \<lparr>blockhash = js ''Hash1'', lastValidBlockHeight = 100, signature = js ''5Sig''\<rparr>)),
      (TrinitySwap, Printed (ConsoleLog [Str (js ''Swap successful!'')])),
      (TrinitySwap, Printed (ConsoleLog [Str (js ''View on Solscan: https://solscan.io/tx/5Sig'')]))]"
  by (simp add: promise_all_def Let_def buyTokenWithJupiter_def trim_Mint1 trim_Mint2
      swap_steps_def request_swap_def deserialize_and_sign_def send_and_confirm_def or_throw_def
      emit_def by_flow_def settled_join_def
      build_fails_world_def good_world_def sample_lib_def swap_request_def handleTxConfirmation_def
      js_append)

lemma one_fan_out_mono: "one_fan_out lib A s \<Longrightarrow> A \<subseteq> B \<Longrightarrow> one_fan_out lib B s"
  unfolding one_fan_out_def by blast

lemma fan_out_inv_mono: "fan_out_inv lib A s \<Longrightarrow> A \<subseteq> B \<Longrightarrow> fan_out_inv lib B s"
  unfolding fan_out_inv_def using one_fan_out_mono by blast

lemma poll_fan_out_inv:
  assumes "fan_out_inv lib A s"
  shows "fan_out_inv lib (insert out A) (pollSporeApi lib out s)"
proof (cases "done_latch s")
  case True
  with assms show ?thesis
    using fan_out_inv_mono [of lib A s "insert out A"] by (auto simp: poll_done)
next
  case False
  with assms have quiet: "no_swap_yet s"
    by (simp add: fan_out_inv_def)
  show ?thesis
  proof (cases "feed out")
    case (Inl error)
    with False quiet show ?thesis
      by (simp add: poll_feed_error fan_out_inv_def no_swap_yet_def)
  next
    case (Inr agents)
    show ?thesis
    proof (cases "abelToken agents = [] \<and> trinityToken agents = []")
      case True
      with False Inr quiet show ?thesis
        by (simp add: poll_no_reveal fan_out_inv_def no_swap_yet_def)
    next
      case reveal: False
      then have "abelToken agents \<noteq> [] \<or> trinityToken agents \<noteq> []"
        by simp
      note step = poll_reveal [OF False Inr this, of lib]
      have "one_fan_out lib (insert out A) (pollSporeApi lib out s)"
        unfolding one_fan_out_def
        using quiet Inr
        by (intro bexI [of _ out] exI [of _ agents])
           (simp_all add: step promise_all_events swaps_resolve no_swap_yet_def)
      then show ?thesis
        by (simp add: fan_out_inv_def step)
    qed
  qed
qed

lemma popped_fan_out_inv: "fan_out_inv lib A (s\<lparr>timers := ts\<rparr>) = fan_out_inv lib A s"
  by (simp add: fan_out_inv_def no_swap_yet_def one_fan_out_def)

lemma event_loop_fan_out_inv:
  "fan_out_inv lib A s \<Longrightarrow> fan_out_inv lib (A \<union> set outs) (event_loop lib outs s)"
proof (induction lib outs s arbitrary: A rule: event_loop.induct)
  case (1 lib s)
  then show ?case by simp
next
  case (2 lib out outs s)
  show ?case
  proof (cases "timers s")
    case Nil
    with 2(2) show ?thesis
      using fan_out_inv_mono [of lib A s "A \<union> set (out # outs)"] by auto
  next
    case (Cons t ts)
    have "fan_out_inv lib (insert out A) (pollSporeApi lib out (s\<lparr>timers := ts\<rparr>))"
      using 2(2) by (intro poll_fan_out_inv) (simp add: popped_fan_out_inv)
    from 2(1) [OF Cons this] Cons show ?thesis
      by simp
  qed
qed

lemma initial_fan_out_inv: "fan_out_inv lib {} initial"
  by (simp add: fan_out_inv_def no_swap_yet_def initial_def)

lemma program_fan_out_inv: "fan_out_inv lib (set outs) (program lib outs)"
proof (cases outs)
  case Nil
  then show ?thesis by (simp add: program_def initial_fan_out_inv)
next
  case (Cons out rest)
  have "fan_out_inv lib (insert out {}) (pollSporeApi lib out initial)"
    by (intro poll_fan_out_inv initial_fan_out_inv)
  from event_loop_fan_out_inv [OF this, of rest] Cons show ?thesis
    by (simp add: program_def)
qed

lemma calls_in_turn_fan_out_inv:
  "fan_out_inv lib A s \<Longrightarrow> fan_out_inv lib (A \<union> set outs) (calls_in_turn lib outs s)"
  unfolding calls_in_turn_def
proof (induction outs arbitrary: A s)
  case Nil
  then show ?case by simp
next
  case (Cons out outs)
  from Cons(1) [OF poll_fan_out_inv [OF Cons(2), of out]] show ?case
    by (simp add: Un_insert_left Un_commute insert_commute)
qed

lemma at_most_one_fan_out:
  "fan_out_inv lib (set outs) s \<Longrightarrow>
     (events_of AbelSwap (events s) = [] \<and> events_of TrinitySwap (events s) = []) \<or>
     (\<exists>out\<in>set outs. \<exists>agents. feed out = Inr agents \<and>
        events_of AbelSwap (events s) =
          fst (run (abelWorld out) (buyTokenWithJupiter lib (Some (abelToken agents)))) \<and>
        events_of TrinitySwap (events s) =
          fst (run (trinityWorld out) (buyTokenWithJupiter lib (Some (trinityToken agents)))))"
  by (auto simp: fan_out_inv_def no_swap_yet_def one_fan_out_def)

lemma dropWhile_hd_unchanged: "xs \<noteq> [] \<Longrightarrow> \<not> P (hd xs) \<Longrightarrow> dropWhile P xs = xs"
  by (cases xs) simp_all

lemma trim_ends:
  assumes "trim s \<noteq> []"
  shows "\<not> blank (hd (trim s))" and "\<not> blank (last (trim s))"
proof -
  let ?u = "dropWhile blank s"
  let ?v = "dropWhile blank (rev ?u)"
  from assms have v: "?v \<noteq> []" by (simp add: trim_def)
  have u: "?u \<noteq> []"
  proof
    assume "?u = []"
    then have "?v = []" by (simp only: rev.simps dropWhile.simps)
    with v show False by simp
  qed
  have "\<not> blank (hd ?v)" using v by (metis hd_dropWhile)
  then show "\<not> blank (last (trim s))"
    using v by (simp add: trim_def last_rev)
  have "rev ?u = takeWhile blank (rev ?u) @ ?v" by simp
  then have "last (rev ?u) = last ?v" using v by (metis last_appendR)
  moreover have "\<not> blank (hd ?u)" using u by (metis hd_dropWhile)
  ultimately show "\<not> blank (hd (trim s))"
    using u v by (simp add: trim_def hd_rev last_rev)
qed

lemma trim_idem [simp]: "trim (trim s) = trim s"
proof (cases "trim s = []")
  case True
  then show ?thesis by simp
next
  case False
  from trim_ends [OF False] False have "dropWhile blank (trim s) = trim s"
    by (simp add: dropWhile_hd_unchanged)
  moreover from trim_ends [OF False] False have "dropWhile blank (rev (trim s)) = rev (trim s)"
    by (simp add: dropWhile_hd_unchanged hd_rev)
  ultimately show ?thesis
    by (simp add: trim_def)
qed

lemma token_trimmed [simp]: "trim (token a) = token a"
  by (simp add: token_def split: option.splits)

lemma tokens_trimmed [simp]:
  "trim (abelToken agents) = abelToken agents" "trim (trinityToken agents) = trinityToken agents"
  by (simp_all add: abelToken_def trinityToken_def)

lemma buy_blank_run:
  "run w (buyTokenWithJupiter lib (Some [])) = ([Printed (invalid_line (Some []))], Inr ())"
  by (simp add: buyTokenWithJupiter_def)

lemma buy_starts:
  assumes "trim m \<noteq> []"
  shows "take 2 (fst (run w (buyTokenWithJupiter lib (Some m)))) =
           [Printed (attempt_line m), Called (FetchJson (Get (quoteUrl m)))]"
  using run_sync [of w "buyTokenWithJupiter lib (Some m)"]
  by (simp add: sync_nonblank [OF assms])

lemma good_run_Mint1:
  "run good_world (buyTokenWithJupiter sample_lib (Some (js ''Mint1''))) =
     ([Printed (attempt_line (js ''Mint1'')),
       Called (FetchJson (Get (quoteUrl (js ''Mint1'')))),
       Called (FetchJson (swap_request sample_lib (JObj [(js ''outAmount'', JStr (js ''42''))]))),
       Called (SendRawTransaction [0, 1, 2, 3] \<lparr>skipPreflight = True, maxRetries = 2\<rparr>),
       Called GetLatestBlockhash,
       Called (ConfirmTransaction
         \<lparr>blockhash = js ''Hash1'', lastValidBlockHeight = 100, signature = js ''5Sig''\<rparr>),
       Printed (ConsoleLog [Str (js ''Swap successful!'')]),
       Printed (ConsoleLog [Str (js ''View on Solscan: https://solscan.io/tx/5Sig'')])],
      Inr ())"
  by (simp add: buyTokenWithJupiter_def trim_Mint1 run_try_catch swap_steps_def request_swap_def
      deserialize_and_sign_def send_and_confirm_def or_throw_def emit_run
      good_world_def sample_lib_def swap_request_def handleTxConfirmation_def js_append)

lemma trim_Mint2_padded: "trim (js '' Mint2  '') = js ''Mint2''"
  by (simp add: trim_def js_def blank_def WhiteSpace_def LineTerminator_def)

lemma both_revealed_tokens:
  "abelToken both_revealed_agents = js ''Mint1''" "trinityToken both_revealed_agents = js ''Mint2''"
  by (simp_all add: abelToken_def trinityToken_def abel_def trinity_def token_def
      both_revealed_agents_def AGENT_ABEL_ID_def AGENT_TRINITY_ID_def trim_Mint1 trim_Mint2_padded)

lemma both_revealed_fan_out:
  "settling (promise_all good_world offline_world [True, False]
               (buyTokenWithJupiter sample_lib (Some (js ''Mint1'')))
               (buyTokenWithJupiter sample_lib (Some (js ''Mint2'')))) =
     [(AbelSwap, Printed (attempt_line (js ''Mint1''))),
      (AbelSwap, Called (FetchJson (Get (quoteUrl (js ''Mint1''))))),
      (TrinitySwap, Printed (attempt_line (js ''Mint2''))),
      (TrinitySwap, Called (FetchJson (Get (quoteUrl (js ''Mint2''))))),
      (TrinitySwap, Printed (failed_line (External (js ''fetch failed'')))),
      (AbelSwap, Called (FetchJson (swap_request sample_lib (JObj [(js ''outAmount'', JStr (js ''42''))])))),
      (AbelSwap, Called (SendRawTransaction [0, 1, 2, 3] \<lparr>skipPreflight = True, maxRetries = 2\<rparr>)),
      (AbelSwap, Called GetLatestBlockhash),
      (AbelSwap, Called (ConfirmTransaction
        \<lparr>blockhash = js ''Hash1'', lastValidBlockHeight = 100, signature = js ''5Sig''\<rparr>)),
      (AbelSwap, Printed (ConsoleLog [Str (js ''Swap successful!'')])),
      (AbelSwap, Printed (ConsoleLog [Str (js ''View on Solscan: https://solscan.io/tx/5Sig'')]))]"
  by (simp add: promise_all_def Let_def buyTokenWithJupiter_def trim_Mint1 trim_Mint2
      swap_steps_def request_swap_def deserialize_and_sign_def send_and_confirm_def or_throw_def
      emit_def by_flow_def settled_join_def
      offline_world_def good_world_def sample_lib_def swap_request_def handleTxConfirmation_def
      js_append)

lemma fan_out_segments:
  "settling (promise_all w1 w2 bs (buyTokenWithJupiter lib a) (buyTokenWithJupiter lib b)) =
     by_flow AbelSwap (fst (sync (buyTokenWithJupiter lib a))) @
     by_flow TrinitySwap (fst (sync (buyTokenWithJupiter lib b))) @
     interleave w1 w2 bs (snd (sync (buyTokenWithJupiter lib a)))
       (snd (sync (buyTokenWithJupiter lib b)))"
  using promise_all_all [of w1 w2 bs "buyTokenWithJupiter lib a" "buyTokenWithJupiter lib b"]
  by (simp add: promise_all_nothing_behind swaps_resolve)

lemma sync_first:
  "trim m = m \<Longrightarrow>
   fst (sync (buyTokenWithJupiter lib (Some m))) =
     (if m = [] then [Printed (invalid_line (Some []))]
      else [Printed (attempt_line m), Called (FetchJson (Get (quoteUrl m)))])"
  by (cases "m = []") (simp_all add: sync_blank sync_nonblank)

lemma fan_out_starts:
  assumes "trim a = a" "trim b = b"
  shows "take ((if a = [] then 1 else 2) + (if b = [] then 1 else 2))
           (settling (promise_all w1 w2 bs (buyTokenWithJupiter lib (Some a))
                        (buyTokenWithJupiter lib (Some b)))) =
     by_flow AbelSwap
       (if a = [] then [Printed (invalid_line (Some []))]
        else [Printed (attempt_line a), Called (FetchJson (Get (quoteUrl a)))]) @
     by_flow TrinitySwap
       (if b = [] then [Printed (invalid_line (Some []))]
        else [Printed (attempt_line b), Called (FetchJson (Get (quoteUrl b)))])"
  by (simp add: fan_out_segments sync_first [OF assms(1)] sync_first [OF assms(2)] by_flow_def)

lemma swap_pinned:
  assumes "trim a = a"
  shows "(a = [] \<longrightarrow>
            fst (run w (buyTokenWithJupiter lib (Some a))) = [Printed (invalid_line (Some []))]) \<and>
         (a \<noteq> [] \<longrightarrow>
            take 2 (fst (run w (buyTokenWithJupiter lib (Some a)))) =
              [Printed (attempt_line a), Called (FetchJson (Get (quoteUrl a)))] \<and>
            map stage (calls (fst (run w (buyTokenWithJupiter lib (Some a))))) \<in>
              {[0], [0, 1], [0, 1, 2], [0, 1, 2, 3], [0, 1, 2, 3, 4]} \<and>
            (\<forall>quoteResponse swapResponse swapTransaction transaction signedTx rawTransaction txid
                latest confirmation.
               fetch w (Get (quoteUrl a)) = Inr quoteResponse \<and>
               truthy quoteResponse \<and> \<not> truthy_opt (property quoteResponse (js ''error'')) \<and>
               fetch w (swap_request lib quoteResponse) = Inr swapResponse \<and>
               truthy swapResponse \<and> \<not> truthy_opt (property swapResponse (js ''error'')) \<and>
               property swapResponse (js ''swapTransaction'') = Some swapTransaction \<and>
               truthy swapTransaction \<and>
               deserialize lib swapTransaction = Inr transaction \<and>
               sign lib transaction = Inr signedTx \<and>
               serialize lib signedTx = Inr rawTransaction \<and>
               sendRawTransaction w rawTransaction
                 \<lparr>skipPreflight = True, maxRetries = 2\<rparr> = Inr txid \<and>
               getLatestBlockhash w = Inr latest \<and>
               confirmTransaction w
                 \<lparr>blockhash = blockhash latest, lastValidBlockHeight = lastValidBlockHeight latest,
                  signature = txid\<rparr> = Inr confirmation \<longrightarrow>
               fst (run w (buyTokenWithJupiter lib (Some a))) =
                 [Printed (attempt_line a),
                  Called (FetchJson (Get (quoteUrl a))),
                  Called (FetchJson (swap_request lib quoteResponse)),
                  Called (SendRawTransaction rawTransaction
                            \<lparr>skipPreflight = True, maxRetries = 2\<rparr>),
                  Called GetLatestBlockhash,
                  Called (ConfirmTransaction
                    \<lparr>blockhash = blockhash latest,
                     lastValidBlockHeight = lastValidBlockHeight latest, signature = txid\<rparr>)] @
                 map Printed (handleTxConfirmation txid confirmation)))"
proof (intro conjI allI impI)
  assume "a = []"
  then show "fst (run w (buyTokenWithJupiter lib (Some a))) = [Printed (invalid_line (Some []))]"
    by (simp add: buy_blank_run)
next
  assume "a \<noteq> []"
  with assms have nonblank: "trim a \<noteq> []"
    by simp
  show "take 2 (fst (run w (buyTokenWithJupiter lib (Some a)))) =
          [Printed (attempt_line a), Called (FetchJson (Get (quoteUrl a)))]"
    by (rule buy_starts [OF nonblank])
  show "map stage (calls (fst (run w (buyTokenWithJupiter lib (Some a))))) \<in>
          {[0], [0, 1], [0, 1, 2], [0, 1, 2, 3], [0, 1, 2, 3, 4]}"
    by (rule buy_order [OF nonblank])
  fix quoteResponse swapResponse swapTransaction transaction signedTx rawTransaction txid latest
    confirmation
  assume "fetch w (Get (quoteUrl a)) = Inr quoteResponse \<and>
               truthy quoteResponse \<and> \<not> truthy_opt (property quoteResponse (js ''error'')) \<and>
               fetch w (swap_request lib quoteResponse) = Inr swapResponse \<and>
               truthy swapResponse \<and> \<not> truthy_opt (property swapResponse (js ''error'')) \<and>
               property swapResponse (js ''swapTransaction'') = Some swapTransaction \<and>
               truthy swapTransaction \<and>
               deserialize lib swapTransaction = Inr transaction \<and>
               sign lib transaction = Inr signedTx \<and>
               serialize lib signedTx = Inr rawTransaction \<and>
               sendRawTransaction w rawTransaction
                 \<lparr>skipPreflight = True, maxRetries = 2\<rparr> = Inr txid \<and>
               getLatestBlockhash w = Inr latest \<and>
               confirmTransaction w
                 \<lparr>blockhash = blockhash latest, lastValidBlockHeight = lastValidBlockHeight latest,
                  signature = txid\<rparr> = Inr confirmation"
  then show "fst (run w (buyTokenWithJupiter lib (Some a))) =
                 [Printed (attempt_line a),
                  Called (FetchJson (Get (quoteUrl a))),
                  Called (FetchJson (swap_request lib quoteResponse)),
                  Called (SendRawTransaction rawTransaction
                            \<lparr>skipPreflight = True, maxRetries = 2\<rparr>),
                  Called GetLatestBlockhash,
                  Called (ConfirmTransaction
                    \<lparr>blockhash = blockhash latest,
                     lastValidBlockHeight = lastValidBlockHeight latest, signature = txid\<rparr>)] @
                 map Printed (handleTxConfirmation txid confirmation)"
    using swap_success [OF nonblank, where w = w and lib = lib
          and quoteResponse = quoteResponse and swapResponse = swapResponse
          and swapTransaction = swapTransaction and transaction = transaction
          and signedTx = signedTx and rawTransaction = rawTransaction and txid = txid
          and latest = latest and confirmation = confirmation]
    by simp
qed

section \<open>Properties of \<open>handleTxConfirmation\<close>\<close>

text \<open>
  C7. \<open>handleTxConfirmation\<close> is a total function of the transaction identifier and the
  confirmation result and has no throwing branch: when the error value is \<open>null\<close> or absent
  it prints the success line and the Solscan link ending in the identifier, and when an error
  value is present it prints one error line carrying that value unchanged.
\<close>

theorem handleTxConfirmation_total:
  "handleTxConfirmation txid \<lparr>rpc_context = slot, rpc_value = \<lparr>err = None\<rparr>\<rparr> =
     [ConsoleLog [Str (js ''Swap successful!'')],
      ConsoleLog [Str (js ''View on Solscan: https://solscan.io/tx/'' @ txid)]] \<and>
   handleTxConfirmation txid \<lparr>rpc_context = slot, rpc_value = \<lparr>err = Some JNull\<rparr>\<rparr> =
     [ConsoleLog [Str (js ''Swap successful!'')],
      ConsoleLog [Str (js ''View on Solscan: https://solscan.io/tx/'' @ txid)]] \<and>
   (\<forall>e. e \<noteq> JNull \<longrightarrow>
      handleTxConfirmation txid \<lparr>rpc_context = slot, rpc_value = \<lparr>err = Some e\<rparr>\<rparr> =
        [ConsoleError [Str (js ''Transaction error:''), Json e]])"
proof -
  have "\<not> eq_null (Some e)" if "e \<noteq> JNull" for e
    using that by (cases e) simp_all
  then show ?thesis
    by (simp add: handleTxConfirmation_def)
qed

theorem handleTxConfirmation_total_witness:
  "JObj [(js ''InstructionError'', JArr [JNum 0, JStr (js ''Custom'')])] \<noteq> JNull \<and>
   handleTxConfirmation (js ''5Sig'')
       \<lparr>rpc_context = 1,
        rpc_value = \<lparr>err = Some (JObj [(js ''InstructionError'', JArr [JNum 0, JStr (js ''Custom'')])])\<rparr>\<rparr> =
     [ConsoleError [Str (js ''Transaction error:''),
                    Json (JObj [(js ''InstructionError'', JArr [JNum 0, JStr (js ''Custom'')])])]]"
  using handleTxConfirmation_total [of "js ''5Sig''" 1] by simp

section \<open>Properties of \<open>buyTokenWithJupiter\<close>\<close>

text \<open>
  C5. Called without an address, or with an address that is empty or made of whitespace
  only, \<open>buyTokenWithJupiter\<close> prints its one diagnostic line and resolves: it throws
  nothing and issues no external call (no quote, build, submit or confirmation request),
  however the outside world would have answered.
\<close>

theorem buyTokenWithJupiter_blank_noop:
  assumes "mint = None \<or> (\<exists>m. mint = Some m \<and> (\<forall>c\<in>set m. blank c))"
  shows "run w (buyTokenWithJupiter lib mint) = ([Printed (invalid_line mint)], Inr ()) \<and>
         calls (fst (run w (buyTokenWithJupiter lib mint))) = []"
  using assms by (auto simp: buyTokenWithJupiter_def trim_Nil_iff)

theorem buyTokenWithJupiter_blank_noop_witness:
  "list_all blank (js ''   '') \<and>
   run good_world (buyTokenWithJupiter sample_lib (Some (js ''   ''))) =
     ([Printed (ConsoleError
          [Str (js ''buyTokenWithJupiter called with invalid outputMint:''), Str (js ''   '')])],
      Inr ()) \<and>
   run good_world (buyTokenWithJupiter sample_lib None) =
     ([Printed (ConsoleError
          [Str (js ''buyTokenWithJupiter called with invalid outputMint:''), Undefined])],
      Inr ())"
proof -
  have blank: "\<forall>c\<in>set (js ''   ''). blank c"
    by (simp add: js_def blank_def WhiteSpace_def)
  then show ?thesis
    unfolding list_all_iff
    using buyTokenWithJupiter_blank_noop [of "Some (js ''   '')" good_world sample_lib]
      buyTokenWithJupiter_blank_noop [of None good_world sample_lib]
    by (simp add: invalid_line_def)
qed

text \<open>
  C9. The promise of \<open>buyTokenWithJupiter\<close> resolves, for every address and however the
  external calls behave. For an address that passes the guard, whatever the statements
  inside \<open>try\<close> throw (in the quote fetch, the swap request, deserializing, signing,
  sending or confirming) is caught: the effects are those of the statements up to the
  exception, then the line \<open>Jupiter swap failed:\<close> with the exception.
\<close>

theorem buyTokenWithJupiter_never_rejects:
  "snd (run w (buyTokenWithJupiter lib mint)) = Inr () \<and>
   (\<forall>m. mint = Some m \<and> trim m \<noteq> [] \<longrightarrow>
      fst (run w (buyTokenWithJupiter lib mint)) =
        fst (run w (swap_steps lib m)) @
        (case snd (run w (swap_steps lib m)) of
           Inl error \<Rightarrow> [Printed (failed_line error)]
         | Inr u \<Rightarrow> []))"
  by (auto simp: buyTokenWithJupiter_def run_try_catch split: option.splits sum.splits)

theorem buyTokenWithJupiter_never_rejects_witness:
  "trim (js ''Mint1'') \<noteq> [] \<and>
   run offline_world (buyTokenWithJupiter sample_lib (Some (js ''Mint1''))) =
     ([Printed (attempt_line (js ''Mint1'')),
       Called (FetchJson (Get (quoteUrl (js ''Mint1'')))),
       Printed (failed_line (External (js ''fetch failed'')))], Inr ())"
proof -
  have nonblank: "trim (js ''Mint1'') \<noteq> []"
    by (simp add: trim_Mint1)
  have steps: "run offline_world (swap_steps sample_lib (js ''Mint1'')) =
     ([Printed (attempt_line (js ''Mint1'')), Called (FetchJson (Get (quoteUrl (js ''Mint1''))))],
      Inl (External (js ''fetch failed'')))"
    by (simp add: swap_steps_def or_throw_def offline_world_def)
  show ?thesis
    using buyTokenWithJupiter_never_rejects [of offline_world sample_lib "Some (js ''Mint1'')"]
      nonblank steps
    by (simp add: prod_eq_iff)
qed




section \<open>Properties of the fan-out\<close>

text \<open>
  C4. The two swaps of one fan-out are independent. In whatever order the responses
  arrive and however the calls of either swap are answered, the events of each swap within
  the joint run are those of that swap run alone on its own address against its own answers:
  an exception in one swap (at the build step, say) changes nothing for the other. Every
  event of the joint run belongs to one of the two swaps. The join resolves, and by then
  both swaps have come to their ends: no event of either is left behind the join.
\<close>

theorem swaps_independent:
  "events_of AbelSwap
     (settling (promise_all w1 w2 bs (buyTokenWithJupiter lib a) (buyTokenWithJupiter lib b))) =
     fst (run w1 (buyTokenWithJupiter lib a)) \<and>
   events_of TrinitySwap
     (settling (promise_all w1 w2 bs (buyTokenWithJupiter lib a) (buyTokenWithJupiter lib b))) =
     fst (run w2 (buyTokenWithJupiter lib b)) \<and>
   events_of Poller
     (settling (promise_all w1 w2 bs (buyTokenWithJupiter lib a) (buyTokenWithJupiter lib b))) = [] \<and>
   outcome (promise_all w1 w2 bs (buyTokenWithJupiter lib a) (buyTokenWithJupiter lib b)) = Inr () \<and>
   behind (promise_all w1 w2 bs (buyTokenWithJupiter lib a) (buyTokenWithJupiter lib b)) = []"
  by (simp add: promise_all_events promise_all_resolves promise_all_nothing_behind buy_resolves)

theorem swaps_independent_witness:
  "settling (promise_all build_fails_world good_world [True, False, False, True, True]
             (buyTokenWithJupiter sample_lib (Some (js ''Mint1'')))
             (buyTokenWithJupiter sample_lib (Some (js ''Mint2'')))) =
     [(AbelSwap, Printed (attempt_line (js ''Mint1''))),
      (AbelSwap, Called (FetchJson (Get (quoteUrl (js ''Mint1''))))),
      (TrinitySwap, Printed (attempt_line (js ''Mint2''))),
      (TrinitySwap, Called (FetchJson (Get (quoteUrl (js ''Mint2''))))),
      (TrinitySwap, Called (FetchJson (swap_request sample_lib (JObj [(js ''outAmount'', JStr (js ''42''))])))),
      (AbelSwap, Called (FetchJson (swap_request sample_lib (JObj [(js ''outAmount'', JStr (js ''42''))])))),
      (AbelSwap, Printed (failed_line (External (js ''build failed'')))),
      (TrinitySwap, Called (SendRawTransaction [0, 1, 2, 3] \<lparr>skipPreflight = True, maxRetries = 2\<rparr>)),
      (TrinitySwap, Called GetLatestBlockhash),
      (TrinitySwap, Called (ConfirmTransaction
        \<lparr>blockhash = js ''Hash1'', lastValidBlockHeight = 100, signature = js ''5Sig''\<rparr>)),
      (TrinitySwap, Printed (ConsoleLog [Str (js ''Swap successful!'')])),
      (TrinitySwap, Printed (ConsoleLog [Str (js ''View on Solscan: https://solscan.io/tx/5Sig'')]))] \<and>
   events_of AbelSwap
     (settling (promise_all build_fails_world good_world [True, False, False, True, True]
             (buyTokenWithJupiter sample_lib (Some (js ''Mint1'')))
             (buyTokenWithJupiter sample_lib (Some (js ''Mint2''))))) =
     [Printed (attempt_line (js ''Mint1'')),
      Called (FetchJson (Get (quoteUrl (js ''Mint1'')))),
      Called (FetchJson (swap_request sample_lib (JObj [(js ''outAmount'', JStr (js ''42''))]))),
      Printed (failed_line (External (js ''build failed'')))] \<and>
   events_of TrinitySwap
     (settling (promise_all build_fails_world good_world [True, False, False, True, True]
             (buyTokenWithJupiter sample_lib (Some (js ''Mint1'')))
             (buyTokenWithJupiter sample_lib (Some (js ''Mint2''))))) =
     [Printed (attempt_line (js ''Mint2'')),
      Called (FetchJson (Get (quoteUrl (js ''Mint2'')))),
      Called (FetchJson (swap_request sample_lib (JObj [(js ''outAmount'', JStr (js ''42''))]))),
      Called (SendRawTransaction [0, 1, 2, 3] \<lparr>skipPreflight = True, maxRetries = 2\<rparr>),
      Called GetLatestBlockhash,
      Called (ConfirmTransaction
        \<lparr>blockhash = js ''Hash1'', lastValidBlockHeight = 100, signature = js ''5Sig''\<rparr>),
      Printed (ConsoleLog [Str (js ''Swap successful!'')]),
      Printed (ConsoleLog [Str (js ''View on Solscan: https://solscan.io/tx/5Sig'')])] \<and>
   outcome (promise_all build_fails_world good_world [True, False, False, True, True]
          (buyTokenWithJupiter sample_lib (Some (js ''Mint1'')))
          (buyTokenWithJupiter sample_lib (Some (js ''Mint2'')))) = Inr () \<and>
   behind (promise_all build_fails_world good_world [True, False, False, True, True]
          (buyTokenWithJupiter sample_lib (Some (js ''Mint1'')))
          (buyTokenWithJupiter sample_lib (Some (js ''Mint2'')))) = []"
proof -
  note independent =
    swaps_independent [of build_fails_world good_world "[True, False, False, True, True]"
      sample_lib "Some (js ''Mint1'')" "Some (js ''Mint2'')"]
  show ?thesis
    apply (intro conjI)
        apply (rule joint_trace_build_fails)
       apply (simp only: independent build_fails_run fst_conv)
      apply (simp only: independent good_run_Mint2 fst_conv)
     apply (simp only: independent)
    apply (simp only: independent)
    done
qed

section \<open>Properties of \<open>pollSporeApi\<close>\<close>

text \<open>
  C1. Once \<open>done\<close> is true it stays true: a call of \<open>pollSporeApi\<close> with \<open>done\<close> set
  changes nothing, and a program that has set \<open>done\<close> still has it set however much longer
  it runs. The execution phase is entered at most once in the whole run: the detection is
  printed at most once, and all that the two swaps ever do is what the swaps of one fan-out
  do (or nothing). This holds of the program as its timers drive it and of any sequence of
  calls of \<open>pollSporeApi\<close> from the initial state.
\<close>

theorem latch_monotone:
  "(done_latch s \<longrightarrow> pollSporeApi lib out s = s) \<and>
   (done_latch (program lib outs) \<longrightarrow> done_latch (program lib (outs @ later))) \<and>
   phase_entries (events (program lib outs)) \<le> 1 \<and>
   ((events_of AbelSwap (events (program lib outs)) = [] \<and>
     events_of TrinitySwap (events (program lib outs)) = []) \<or>
    (\<exists>out\<in>set outs. \<exists>agents. feed out = Inr agents \<and>
       events_of AbelSwap (events (program lib outs)) =
         fst (run (abelWorld out) (buyTokenWithJupiter lib (Some (abelToken agents)))) \<and>
       events_of TrinitySwap (events (program lib outs)) =
         fst (run (trinityWorld out) (buyTokenWithJupiter lib (Some (trinityToken agents)))))) \<and>
   (done_latch (calls_in_turn lib outs initial) \<longrightarrow>
      done_latch (calls_in_turn lib (outs @ later) initial)) \<and>
   phase_entries (events (calls_in_turn lib outs initial)) \<le> 1 \<and>
   ((events_of AbelSwap (events (calls_in_turn lib outs initial)) = [] \<and>
     events_of TrinitySwap (events (calls_in_turn lib outs initial)) = []) \<or>
    (\<exists>out\<in>set outs. \<exists>agents. feed out = Inr agents \<and>
       events_of AbelSwap (events (calls_in_turn lib outs initial)) =
         fst (run (abelWorld out) (buyTokenWithJupiter lib (Some (abelToken agents)))) \<and>
       events_of TrinitySwap (events (calls_in_turn lib outs initial)) =
         fst (run (trinityWorld out) (buyTokenWithJupiter lib (Some (trinityToken agents))))))"
proof (intro conjI impI)
  assume "done_latch s"
  then show "pollSporeApi lib out s = s" by (rule poll_done)
next
  assume latched: "done_latch (program lib outs)"
  then have "outs \<noteq> []" by (auto simp: program_def initial_def)
  with latched show "done_latch (program lib (outs @ later))"
    by (simp add: program_append event_loop_latch)
next
  show "phase_entries (events (program lib outs)) \<le> 1"
    using program_inv [of lib outs] by (simp add: latch_inv_def)
next
  show "(events_of AbelSwap (events (program lib outs)) = [] \<and>
     events_of TrinitySwap (events (program lib outs)) = []) \<or>
    (\<exists>out\<in>set outs. \<exists>agents. feed out = Inr agents \<and>
       events_of AbelSwap (events (program lib outs)) =
         fst (run (abelWorld out) (buyTokenWithJupiter lib (Some (abelToken agents)))) \<and>
       events_of TrinitySwap (events (program lib outs)) =
         fst (run (trinityWorld out) (buyTokenWithJupiter lib (Some (trinityToken agents)))))"
    by (rule at_most_one_fan_out [OF program_fan_out_inv])
next
  assume "done_latch (calls_in_turn lib outs initial)"
  then show "done_latch (calls_in_turn lib (outs @ later) initial)"
    using calls_in_turn_latch [of "calls_in_turn lib outs initial" lib later]
    by (simp add: calls_in_turn_def)
next
  show "phase_entries (events (calls_in_turn lib outs initial)) \<le> 1"
    using calls_in_turn_inv [OF initial_inv, of lib outs] by (simp add: latch_inv_def)
next
  have "fan_out_inv lib (set outs) (calls_in_turn lib outs initial)"
    using calls_in_turn_fan_out_inv [OF initial_fan_out_inv, of lib outs] by simp
  then show "(events_of AbelSwap (events (calls_in_turn lib outs initial)) = [] \<and>
     events_of TrinitySwap (events (calls_in_turn lib outs initial)) = []) \<or>
    (\<exists>out\<in>set outs. \<exists>agents. feed out = Inr agents \<and>
       events_of AbelSwap (events (calls_in_turn lib outs initial)) =
         fst (run (abelWorld out) (buyTokenWithJupiter lib (Some (abelToken agents)))) \<and>
       events_of TrinitySwap (events (calls_in_turn lib outs initial)) =
         fst (run (trinityWorld out) (buyTokenWithJupiter lib (Some (trinityToken agents)))))"
    by (rule at_most_one_fan_out)
qed

theorem latch_monotone_witness:
  "done_latch (program sample_lib [sample_outside (Inr []), sample_outside (Inr scenario_B_agents)]) \<and>
   done_latch (program sample_lib
     ([sample_outside (Inr []), sample_outside (Inr scenario_B_agents)] @
      [sample_outside (Inr scenario_B_agents)])) \<and>
   phase_entries (events (program sample_lib
     [sample_outside (Inr []), sample_outside (Inr scenario_B_agents),
      sample_outside (Inr scenario_B_agents)])) \<le> 1"
  using quiet_then_reveal
    latch_monotone [of initial sample_lib "sample_outside (Inr [])"
      "[sample_outside (Inr []), sample_outside (Inr scenario_B_agents)]"
      "[sample_outside (Inr scenario_B_agents)]"]
    latch_monotone [of initial sample_lib "sample_outside (Inr [])"
      "[sample_outside (Inr []), sample_outside (Inr scenario_B_agents),
        sample_outside (Inr scenario_B_agents)]" "[]"]
  by simp

text \<open>
  C8. A call of \<open>pollSporeApi\<close> with \<open>done\<close> false does one of three things. When
  fetching or parsing the feed throws, it prints the error and sets the timer for 100 ms.
  When the feed has no address for either agent, it sets the timer for 100 ms. When an
  address is there, it sets \<open>done\<close>, prints the detection, runs the two swaps and sets no
  timer, however the calls of the swaps are answered; with no timer pending the program
  makes no further call. The execution phase is this: after the feed request and the
  detection line, the first swap runs to its first \<open>await\<close> and then the second does (a
  swap with an empty address prints the line of its guard and is over, any other prints its
  attempt line and issues its quote request); the poller itself adds no further event; and
  each swap, in its own world, makes its external calls in the order quote, swap request,
  submission, block hash, confirmation, stopping at the first that fails, and when all of
  them succeed its events are exactly the attempt line, the five calls with the values
  passed on from one to the next, and the lines of \<open>handleTxConfirmation\<close>.
\<close>

theorem poll_tick_outcomes:
  assumes "\<not> done_latch s"
  shows
    "(\<forall>error. feed out = Inl error \<longrightarrow>
        pollSporeApi lib out s =
          s\<lparr>events := events s @
                [(Poller, Called (FetchJson (Get SPORE_API_URL))),
                 (Poller, Printed (ConsoleError [Str (js ''Error polling Spore API:''),
                                                 Caught error]))],
            timers := timers s @ [100]\<rparr>) \<and>
     (\<forall>agents. feed out = Inr agents \<and> abelToken agents = [] \<and> trinityToken agents = [] \<longrightarrow>
        pollSporeApi lib out s =
          s\<lparr>events := events s @ [(Poller, Called (FetchJson (Get SPORE_API_URL)))],
            timers := timers s @ [100]\<rparr>) \<and>
     (\<forall>agents. feed out = Inr agents \<and> (abelToken agents \<noteq> [] \<or> trinityToken agents \<noteq> []) \<longrightarrow>
        pollSporeApi lib out s =
          s\<lparr>done_latch := True,
            events := events s @
              [(Poller, Called (FetchJson (Get SPORE_API_URL))),
               (Poller, Printed (detected_line (abelToken agents) (trinityToken agents)))] @
              settling (promise_all (abelWorld out) (trinityWorld out) (arrivals out)
                     (buyTokenWithJupiter lib (Some (abelToken agents)))
                     (buyTokenWithJupiter lib (Some (trinityToken agents))))\<rparr> \<and>
        timers (pollSporeApi lib out s) = timers s \<and>
        (\<forall>outs. timers s = [] \<longrightarrow>
           event_loop lib outs (pollSporeApi lib out s) = pollSporeApi lib out s) \<and>
        take (2 + (if abelToken agents = [] then 1 else 2) +
                (if trinityToken agents = [] then 1 else 2))
          (drop (length (events s)) (events (pollSporeApi lib out s))) =
          [(Poller, Called (FetchJson (Get SPORE_API_URL))),
           (Poller, Printed (detected_line (abelToken agents) (trinityToken agents)))] @
          by_flow AbelSwap
            (if abelToken agents = [] then [Printed (invalid_line (Some []))]
             else [Printed (attempt_line (abelToken agents)),
                   Called (FetchJson (Get (quoteUrl (abelToken agents))))]) @
          by_flow TrinitySwap
            (if trinityToken agents = [] then [Printed (invalid_line (Some []))]
             else [Printed (attempt_line (trinityToken agents)),
                   Called (FetchJson (Get (quoteUrl (trinityToken agents))))]) \<and>
        events_of Poller (drop (length (events s)) (events (pollSporeApi lib out s))) =
          [Called (FetchJson (Get SPORE_API_URL)),
           Printed (detected_line (abelToken agents) (trinityToken agents))] \<and>
        (\<forall>f w a. (f, w, a) \<in> {(AbelSwap, abelWorld out, abelToken agents),
                                  (TrinitySwap, trinityWorld out, trinityToken agents)} \<longrightarrow>
           (a = [] \<longrightarrow>
              events_of f (drop (length (events s)) (events (pollSporeApi lib out s))) =
                [Printed (invalid_line (Some []))]) \<and>
           (a \<noteq> [] \<longrightarrow>
              take 2 (events_of f (drop (length (events s)) (events (pollSporeApi lib out s)))) =
                [Printed (attempt_line a), Called (FetchJson (Get (quoteUrl a)))] \<and>
              map stage (calls (events_of f
                (drop (length (events s)) (events (pollSporeApi lib out s))))) \<in>
                {[0], [0, 1], [0, 1, 2], [0, 1, 2, 3], [0, 1, 2, 3, 4]} \<and>
              (\<forall>quoteResponse swapResponse swapTransaction transaction signedTx rawTransaction txid
                  latest confirmation.
                 fetch w (Get (quoteUrl a)) = Inr quoteResponse \<and>
                 truthy quoteResponse \<and> \<not> truthy_opt (property quoteResponse (js ''error'')) \<and>
                 fetch w (swap_request lib quoteResponse) = Inr swapResponse \<and>
                 truthy swapResponse \<and> \<not> truthy_opt (property swapResponse (js ''error'')) \<and>
                 property swapResponse (js ''swapTransaction'') = Some swapTransaction \<and>
                 truthy swapTransaction \<and>
                 deserialize lib swapTransaction = Inr transaction \<and>
                 sign lib transaction = Inr signedTx \<and>
                 serialize lib signedTx = Inr rawTransaction \<and>
                 sendRawTransaction w rawTransaction
                   \<lparr>skipPreflight = True, maxRetries = 2\<rparr> = Inr txid \<and>
                 getLatestBlockhash w = Inr latest \<and>
                 confirmTransaction w
                   \<lparr>blockhash = blockhash latest, lastValidBlockHeight = lastValidBlockHeight latest,
                    signature = txid\<rparr> = Inr confirmation \<longrightarrow>
                 events_of f (drop (length (events s)) (events (pollSporeApi lib out s))) =
                   [Printed (attempt_line a),
                    Called (FetchJson (Get (quoteUrl a))),
                    Called (FetchJson (swap_request lib quoteResponse)),
                    Called (SendRawTransaction rawTransaction
                              \<lparr>skipPreflight = True, maxRetries = 2\<rparr>),
                    Called GetLatestBlockhash,
                    Called (ConfirmTransaction
                      \<lparr>blockhash = blockhash latest,
                       lastValidBlockHeight = lastValidBlockHeight latest, signature = txid\<rparr>)] @
                   map Printed (handleTxConfirmation txid confirmation)))))"
proof (intro conjI)
  show "(\<forall>error. feed out = Inl error \<longrightarrow>
           pollSporeApi lib out s =
             s\<lparr>events := events s @
                   [(Poller, Called (FetchJson (Get SPORE_API_URL))),
                    (Poller, Printed (ConsoleError [Str (js ''Error polling Spore API:''),
                                                    Caught error]))],
               timers := timers s @ [100]\<rparr>)"
    using assms by (simp add: poll_feed_error polling_error_line_def POLL_INTERVAL_MS_def)
  show "(\<forall>agents. feed out = Inr agents \<and> abelToken agents = [] \<and> trinityToken agents = [] \<longrightarrow>
           pollSporeApi lib out s =
             s\<lparr>events := events s @ [(Poller, Called (FetchJson (Get SPORE_API_URL)))],
               timers := timers s @ [100]\<rparr>)"
    using assms by (simp add: poll_no_reveal POLL_INTERVAL_MS_def)
  show "(\<forall>agents. feed out = Inr agents \<and> (abelToken agents \<noteq> [] \<or> trinityToken agents \<noteq> []) \<longrightarrow>
           pollSporeApi lib out s =
             s\<lparr>done_latch := True,
               events := events s @
                 [(Poller, Called (FetchJson (Get SPORE_API_URL))),
                  (Poller, Printed (detected_line (abelToken agents) (trinityToken agents)))] @
                 settling (promise_all (abelWorld out) (trinityWorld out) (arrivals out)
                        (buyTokenWithJupiter lib (Some (abelToken agents)))
                        (buyTokenWithJupiter lib (Some (trinityToken agents))))\<rparr> \<and>
           timers (pollSporeApi lib out s) = timers s \<and>
           (\<forall>outs. timers s = [] \<longrightarrow>
              event_loop lib outs (pollSporeApi lib out s) = pollSporeApi lib out s) \<and>
           take (2 + (if abelToken agents = [] then 1 else 2) +
                   (if trinityToken agents = [] then 1 else 2))
             (drop (length (events s)) (events (pollSporeApi lib out s))) =
             [(Poller, Called (FetchJson (Get SPORE_API_URL))),
              (Poller, Printed (detected_line (abelToken agents) (trinityToken agents)))] @
             by_flow AbelSwap
               (if abelToken agents = [] then [Printed (invalid_line (Some []))]
                else [Printed (attempt_line (abelToken agents)),
                      Called (FetchJson (Get (quoteUrl (abelToken agents))))]) @
             by_flow TrinitySwap
               (if trinityToken agents = [] then [Printed (invalid_line (Some []))]
                else [Printed (attempt_line (trinityToken agents)),
                      Called (FetchJson (Get (quoteUrl (trinityToken agents))))]) \<and>
           events_of Poller (drop (length (events s)) (events (pollSporeApi lib out s))) =
             [Called (FetchJson (Get SPORE_API_URL)),
              Printed (detected_line (abelToken agents) (trinityToken agents))] \<and>
           (\<forall>f w a. (f, w, a) \<in> {(AbelSwap, abelWorld out, abelToken agents),
                                     (TrinitySwap, trinityWorld out, trinityToken agents)} \<longrightarrow>
              (a = [] \<longrightarrow>
                 events_of f (drop (length (events s)) (events (pollSporeApi lib out s))) =
                   [Printed (invalid_line (Some []))]) \<and>
              (a \<noteq> [] \<longrightarrow>
                 take 2 (events_of f (drop (length (events s)) (events (pollSporeApi lib out s)))) =
                   [Printed (attempt_line a), Called (FetchJson (Get (quoteUrl a)))] \<and>
                 map stage (calls (events_of f
                   (drop (length (events s)) (events (pollSporeApi lib out s))))) \<in>
                   {[0], [0, 1], [0, 1, 2], [0, 1, 2, 3], [0, 1, 2, 3, 4]} \<and>
                 (\<forall>quoteResponse swapResponse swapTransaction transaction signedTx rawTransaction txid
                     latest confirmation.
                    fetch w (Get (quoteUrl a)) = Inr quoteResponse \<and>
                    truthy quoteResponse \<and> \<not> truthy_opt (property quoteResponse (js ''error'')) \<and>
                    fetch w (swap_request lib quoteResponse) = Inr swapResponse \<and>
                    truthy swapResponse \<and> \<not> truthy_opt (property swapResponse (js ''error'')) \<and>
                    property swapResponse (js ''swapTransaction'') = Some swapTransaction \<and>
                    truthy swapTransaction \<and>
                    deserialize lib swapTransaction = Inr transaction \<and>
                    sign lib transaction = Inr signedTx \<and>
                    serialize lib signedTx = Inr rawTransaction \<and>
                    sendRawTransaction w rawTransaction
                      \<lparr>skipPreflight = True, maxRetries = 2\<rparr> = Inr txid \<and>
                    getLatestBlockhash w = Inr latest \<and>
                    confirmTransaction w
                      \<lparr>blockhash = blockhash latest, lastValidBlockHeight = lastValidBlockHeight latest,
                       signature = txid\<rparr> = Inr confirmation \<longrightarrow>
                    events_of f (drop (length (events s)) (events (pollSporeApi lib out s))) =
                      [Printed (attempt_line a),
                       Called (FetchJson (Get (quoteUrl a))),
                       Called (FetchJson (swap_request lib quoteResponse)),
                       Called (SendRawTransaction rawTransaction
                                 \<lparr>skipPreflight = True, maxRetries = 2\<rparr>),
                       Called GetLatestBlockhash,
                       Called (ConfirmTransaction
                         \<lparr>blockhash = blockhash latest,
                          lastValidBlockHeight = lastValidBlockHeight latest, signature = txid\<rparr>)] @
                      map Printed (handleTxConfirmation txid confirmation)))))"
  proof (intro allI impI)
    fix agents
    assume reveal: "feed out = Inr agents \<and> (abelToken agents \<noteq> [] \<or> trinityToken agents \<noteq> [])"
    with assms have step: "pollSporeApi lib out s =
          s\<lparr>done_latch := True,
            events := events s @
              [(Poller, Called (FetchJson (Get SPORE_API_URL))),
               (Poller, Printed (detected_line (abelToken agents) (trinityToken agents)))] @
              settling (promise_all (abelWorld out) (trinityWorld out) (arrivals out)
                     (buyTokenWithJupiter lib (Some (abelToken agents)))
                     (buyTokenWithJupiter lib (Some (trinityToken agents))))\<rparr>"
      by (simp add: poll_reveal)
    have new: "drop (length (events s)) (events (pollSporeApi lib out s)) =
        [(Poller, Called (FetchJson (Get SPORE_API_URL))),
         (Poller, Printed (detected_line (abelToken agents) (trinityToken agents)))] @
        settling (promise_all (abelWorld out) (trinityWorld out) (arrivals out)
               (buyTokenWithJupiter lib (Some (abelToken agents)))
               (buyTokenWithJupiter lib (Some (trinityToken agents))))"
      by (simp add: step)
    have still: "timers (pollSporeApi lib out s) = timers s"
      by (simp add: step)
    have stops: "(\<forall>outs. timers s = [] \<longrightarrow>
           event_loop lib outs (pollSporeApi lib out s) = pollSporeApi lib out s)"
      using still by (simp add: event_loop_no_timer)
    have starts: "take (2 + (if abelToken agents = [] then 1 else 2) +
                (if trinityToken agents = [] then 1 else 2))
          (drop (length (events s)) (events (pollSporeApi lib out s))) =
          [(Poller, Called (FetchJson (Get SPORE_API_URL))),
           (Poller, Printed (detected_line (abelToken agents) (trinityToken agents)))] @
          by_flow AbelSwap
            (if abelToken agents = [] then [Printed (invalid_line (Some []))]
             else [Printed (attempt_line (abelToken agents)),
                   Called (FetchJson (Get (quoteUrl (abelToken agents))))]) @
          by_flow TrinitySwap
            (if trinityToken agents = [] then [Printed (invalid_line (Some []))]
             else [Printed (attempt_line (trinityToken agents)),
                   Called (FetchJson (Get (quoteUrl (trinityToken agents))))])"
      using fan_out_starts [OF tokens_trimmed, of agents agents "abelWorld out" "trinityWorld out"
          "arrivals out" lib]
      by (simp only: new) (simp add: by_flow_def)
    have poller: "events_of Poller (drop (length (events s)) (events (pollSporeApi lib out s))) =
          [Called (FetchJson (Get SPORE_API_URL)),
           Printed (detected_line (abelToken agents) (trinityToken agents))]"
      by (simp add: new promise_all_events swaps_resolve)
    have abel: "events_of AbelSwap (drop (length (events s)) (events (pollSporeApi lib out s))) =
        fst (run (abelWorld out) (buyTokenWithJupiter lib (Some (abelToken agents))))"
      by (simp add: new promise_all_events swaps_resolve)
    have trinity: "events_of TrinitySwap (drop (length (events s)) (events (pollSporeApi lib out s))) =
        fst (run (trinityWorld out) (buyTokenWithJupiter lib (Some (trinityToken agents))))"
      by (simp add: new promise_all_events swaps_resolve)
    have first: "(abelToken agents = [] \<longrightarrow>
           events_of AbelSwap (drop (length (events s)) (events (pollSporeApi lib out s))) =
             [Printed (invalid_line (Some []))]) \<and>
        (abelToken agents \<noteq> [] \<longrightarrow>
           take 2 (events_of AbelSwap (drop (length (events s)) (events (pollSporeApi lib out s)))) =
             [Printed (attempt_line (abelToken agents)), Called (FetchJson (Get (quoteUrl (abelToken agents))))] \<and>
           map stage (calls (events_of AbelSwap
             (drop (length (events s)) (events (pollSporeApi lib out s))))) \<in>
             {[0], [0, 1], [0, 1, 2], [0, 1, 2, 3], [0, 1, 2, 3, 4]} \<and>
           (\<forall>quoteResponse swapResponse swapTransaction transaction signedTx rawTransaction txid
               latest confirmation.
              fetch (abelWorld out) (Get (quoteUrl (abelToken agents))) = Inr quoteResponse \<and>
              truthy quoteResponse \<and> \<not> truthy_opt (property quoteResponse (js ''error'')) \<and>
              fetch (abelWorld out) (swap_request lib quoteResponse) = Inr swapResponse \<and>
              truthy swapResponse \<and> \<not> truthy_opt (property swapResponse (js ''error'')) \<and>
              property swapResponse (js ''swapTransaction'') = Some swapTransaction \<and>
              truthy swapTransaction \<and>
              deserialize lib swapTransaction = Inr transaction \<and>
              sign lib transaction = Inr signedTx \<and>
              serialize lib signedTx = Inr rawTransaction \<and>
              sendRawTransaction (abelWorld out) rawTransaction
                \<lparr>skipPreflight = True, maxRetries = 2\<rparr> = Inr txid \<and>
              getLatestBlockhash (abelWorld out) = Inr latest \<and>
              confirmTransaction (abelWorld out)
                \<lparr>blockhash = blockhash latest, lastValidBlockHeight = lastValidBlockHeight latest,
                 signature = txid\<rparr> = Inr confirmation \<longrightarrow>
              events_of AbelSwap (drop (length (events s)) (events (pollSporeApi lib out s))) =
                [Printed (attempt_line (abelToken agents)),
                 Called (FetchJson (Get (quoteUrl (abelToken agents)))),
                 Called (FetchJson (swap_request lib quoteResponse)),
                 Called (SendRawTransaction rawTransaction
                           \<lparr>skipPreflight = True, maxRetries = 2\<rparr>),
                 Called GetLatestBlockhash,
                 Called (ConfirmTransaction
                   \<lparr>blockhash = blockhash latest,
                    lastValidBlockHeight = lastValidBlockHeight latest, signature = txid\<rparr>)] @
                map Printed (handleTxConfirmation txid confirmation)))"
      unfolding abel by (rule swap_pinned) simp
    have second: "(trinityToken agents = [] \<longrightarrow>
           events_of TrinitySwap (drop (length (events s)) (events (pollSporeApi lib out s))) =
             [Printed (invalid_line (Some []))]) \<and>
        (trinityToken agents \<noteq> [] \<longrightarrow>
           take 2 (events_of TrinitySwap (drop (length (events s)) (events (pollSporeApi lib out s)))) =
             [Printed (attempt_line (trinityToken agents)), Called (FetchJson (Get (quoteUrl (trinityToken agents))))] \<and>
           map stage (calls (events_of TrinitySwap
             (drop (length (events s)) (events (pollSporeApi lib out s))))) \<in>
             {[0], [0, 1], [0, 1, 2], [0, 1, 2, 3], [0, 1, 2, 3, 4]} \<and>
           (\<forall>quoteResponse swapResponse swapTransaction transaction signedTx rawTransaction txid
               latest confirmation.
              fetch (trinityWorld out) (Get (quoteUrl (trinityToken agents))) = Inr quoteResponse \<and>
              truthy quoteResponse \<and> \<not> truthy_opt (property quoteResponse (js ''error'')) \<and>
              fetch (trinityWorld out) (swap_request lib quoteResponse) = Inr swapResponse \<and>
              truthy swapResponse \<and> \<not> truthy_opt (property swapResponse (js ''error'')) \<and>
              property swapResponse (js ''swapTransaction'') = Some swapTransaction \<and>
              truthy swapTransaction \<and>
              deserialize lib swapTransaction = Inr transaction \<and>
              sign lib transaction = Inr signedTx \<and>
              serialize lib signedTx = Inr rawTransaction \<and>
              sendRawTransaction (trinityWorld out) rawTransaction
                \<lparr>skipPreflight = True, maxRetries = 2\<rparr> = Inr txid \<and>
              getLatestBlockhash (trinityWorld out) = Inr latest \<and>
              confirmTransaction (trinityWorld out)
                \<lparr>blockhash = blockhash latest, lastValidBlockHeight = lastValidBlockHeight latest,
                 signature = txid\<rparr> = Inr confirmation \<longrightarrow>
              events_of TrinitySwap (drop (length (events s)) (events (pollSporeApi lib out s))) =
                [Printed (attempt_line (trinityToken agents)),
                 Called (FetchJson (Get (quoteUrl (trinityToken agents)))),
                 Called (FetchJson (swap_request lib quoteResponse)),
                 Called (SendRawTransaction rawTransaction
                           \<lparr>skipPreflight = True, maxRetries = 2\<rparr>),
                 Called GetLatestBlockhash,
                 Called (ConfirmTransaction
                   \<lparr>blockhash = blockhash latest,
                    lastValidBlockHeight = lastValidBlockHeight latest, signature = txid\<rparr>)] @
                map Printed (handleTxConfirmation txid confirmation)))"
      unfolding trinity by (rule swap_pinned) simp
    have each: "(\<forall>f w a. (f, w, a) \<in> {(AbelSwap, abelWorld out, abelToken agents),
                                  (TrinitySwap, trinityWorld out, trinityToken agents)} \<longrightarrow>
           (a = [] \<longrightarrow>
              events_of f (drop (length (events s)) (events (pollSporeApi lib out s))) =
                [Printed (invalid_line (Some []))]) \<and>
           (a \<noteq> [] \<longrightarrow>
              take 2 (events_of f (drop (length (events s)) (events (pollSporeApi lib out s)))) =
                [Printed (attempt_line a), Called (FetchJson (Get (quoteUrl a)))] \<and>
              map stage (calls (events_of f
                (drop (length (events s)) (events (pollSporeApi lib out s))))) \<in>
                {[0], [0, 1], [0, 1, 2], [0, 1, 2, 3], [0, 1, 2, 3, 4]} \<and>
              (\<forall>quoteResponse swapResponse swapTransaction transaction signedTx rawTransaction txid
                  latest confirmation.
                 fetch w (Get (quoteUrl a)) = Inr quoteResponse \<and>
                 truthy quoteResponse \<and> \<not> truthy_opt (property quoteResponse (js ''error'')) \<and>
                 fetch w (swap_request lib quoteResponse) = Inr swapResponse \<and>
                 truthy swapResponse \<and> \<not> truthy_opt (property swapResponse (js ''error'')) \<and>
                 property swapResponse (js ''swapTransaction'') = Some swapTransaction \<and>
                 truthy swapTransaction \<and>
                 deserialize lib swapTransaction = Inr transaction \<and>
                 sign lib transaction = Inr signedTx \<and>
                 serialize lib signedTx = Inr rawTransaction \<and>
                 sendRawTransaction w rawTransaction
                   \<lparr>skipPreflight = True, maxRetries = 2\<rparr> = Inr txid \<and>
                 getLatestBlockhash w = Inr latest \<and>
                 confirmTransaction w
                   \<lparr>blockhash = blockhash latest, lastValidBlockHeight = lastValidBlockHeight latest,
                    signature = txid\<rparr> = Inr confirmation \<longrightarrow>
                 events_of f (drop (length (events s)) (events (pollSporeApi lib out s))) =
                   [Printed (attempt_line a),
                    Called (FetchJson (Get (quoteUrl a))),
                    Called (FetchJson (swap_request lib quoteResponse)),
                    Called (SendRawTransaction rawTransaction
                              \<lparr>skipPreflight = True, maxRetries = 2\<rparr>),
                    Called GetLatestBlockhash,
                    Called (ConfirmTransaction
                      \<lparr>blockhash = blockhash latest,
                       lastValidBlockHeight = lastValidBlockHeight latest, signature = txid\<rparr>)] @
                   map Printed (handleTxConfirmation txid confirmation))))"
    proof (intro allI impI)
      fix f w a
      assume "(f, w, a) \<in> {(AbelSwap, abelWorld out, abelToken agents),
                          (TrinitySwap, trinityWorld out, trinityToken agents)}"
      then consider "f = AbelSwap \<and> w = abelWorld out \<and> a = abelToken agents"
        | "f = TrinitySwap \<and> w = trinityWorld out \<and> a = trinityToken agents"
        by auto
      then show "(a = [] \<longrightarrow>
             events_of f (drop (length (events s)) (events (pollSporeApi lib out s))) =
               [Printed (invalid_line (Some []))]) \<and>
          (a \<noteq> [] \<longrightarrow>
             take 2 (events_of f (drop (length (events s)) (events (pollSporeApi lib out s)))) =
               [Printed (attempt_line a), Called (FetchJson (Get (quoteUrl a)))] \<and>
             map stage (calls (events_of f
               (drop (length (events s)) (events (pollSporeApi lib out s))))) \<in>
               {[0], [0, 1], [0, 1, 2], [0, 1, 2, 3], [0, 1, 2, 3, 4]} \<and>
             (\<forall>quoteResponse swapResponse swapTransaction transaction signedTx rawTransaction txid
                 latest confirmation.
                fetch w (Get (quoteUrl a)) = Inr quoteResponse \<and>
                truthy quoteResponse \<and> \<not> truthy_opt (property quoteResponse (js ''error'')) \<and>
                fetch w (swap_request lib quoteResponse) = Inr swapResponse \<and>
                truthy swapResponse \<and> \<not> truthy_opt (property swapResponse (js ''error'')) \<and>
                property swapResponse (js ''swapTransaction'') = Some swapTransaction \<and>
                truthy swapTransaction \<and>
                deserialize lib swapTransaction = Inr transaction \<and>
                sign lib transaction = Inr signedTx \<and>
                serialize lib signedTx = Inr rawTransaction \<and>
                sendRawTransaction w rawTransaction
                  \<lparr>skipPreflight = True, maxRetries = 2\<rparr> = Inr txid \<and>
                getLatestBlockhash w = Inr latest \<and>
                confirmTransaction w
                  \<lparr>blockhash = blockhash latest, lastValidBlockHeight = lastValidBlockHeight latest,
                   signature = txid\<rparr> = Inr confirmation \<longrightarrow>
                events_of f (drop (length (events s)) (events (pollSporeApi lib out s))) =
                  [Printed (attempt_line a),
                   Called (FetchJson (Get (quoteUrl a))),
                   Called (FetchJson (swap_request lib quoteResponse)),
                   Called (SendRawTransaction rawTransaction
                             \<lparr>skipPreflight = True, maxRetries = 2\<rparr>),
                   Called GetLatestBlockhash,
                   Called (ConfirmTransaction
                     \<lparr>blockhash = blockhash latest,
                      lastValidBlockHeight = lastValidBlockHeight latest, signature = txid\<rparr>)] @
                  map Printed (handleTxConfirmation txid confirmation)))"
      proof cases
        case 1
        show ?thesis
          using first by (simp only: 1)
      next
        case 2
        show ?thesis
          using second by (simp only: 2)
      qed
    qed
    show "pollSporeApi lib out s =
            s\<lparr>done_latch := True,
              events := events s @
                [(Poller, Called (FetchJson (Get SPORE_API_URL))),
                 (Poller, Printed (detected_line (abelToken agents) (trinityToken agents)))] @
                settling (promise_all (abelWorld out) (trinityWorld out) (arrivals out)
                       (buyTokenWithJupiter lib (Some (abelToken agents)))
                       (buyTokenWithJupiter lib (Some (trinityToken agents))))\<rparr> \<and>
          timers (pollSporeApi lib out s) = timers s \<and>
          (\<forall>outs. timers s = [] \<longrightarrow>
             event_loop lib outs (pollSporeApi lib out s) = pollSporeApi lib out s) \<and>
          take (2 + (if abelToken agents = [] then 1 else 2) +
                  (if trinityToken agents = [] then 1 else 2))
            (drop (length (events s)) (events (pollSporeApi lib out s))) =
            [(Poller, Called (FetchJson (Get SPORE_API_URL))),
             (Poller, Printed (detected_line (abelToken agents) (trinityToken agents)))] @
            by_flow AbelSwap
              (if abelToken agents = [] then [Printed (invalid_line (Some []))]
               else [Printed (attempt_line (abelToken agents)),
                     Called (FetchJson (Get (quoteUrl (abelToken agents))))]) @
            by_flow TrinitySwap
              (if trinityToken agents = [] then [Printed (invalid_line (Some []))]
               else [Printed (attempt_line (trinityToken agents)),
                     Called (FetchJson (Get (quoteUrl (trinityToken agents))))]) \<and>
          events_of Poller (drop (length (events s)) (events (pollSporeApi lib out s))) =
            [Called (FetchJson (Get SPORE_API_URL)),
             Printed (detected_line (abelToken agents) (trinityToken agents))] \<and>
          (\<forall>f w a. (f, w, a) \<in> {(AbelSwap, abelWorld out, abelToken agents),
                                    (TrinitySwap, trinityWorld out, trinityToken agents)} \<longrightarrow>
             (a = [] \<longrightarrow>
                events_of f (drop (length (events s)) (events (pollSporeApi lib out s))) =
                  [Printed (invalid_line (Some []))]) \<and>
             (a \<noteq> [] \<longrightarrow>
                take 2 (events_of f (drop (length (events s)) (events (pollSporeApi lib out s)))) =
                  [Printed (attempt_line a), Called (FetchJson (Get (quoteUrl a)))] \<and>
                map stage (calls (events_of f
                  (drop (length (events s)) (events (pollSporeApi lib out s))))) \<in>
                  {[0], [0, 1], [0, 1, 2], [0, 1, 2, 3], [0, 1, 2, 3, 4]} \<and>
                (\<forall>quoteResponse swapResponse swapTransaction transaction signedTx rawTransaction txid
                    latest confirmation.
                   fetch w (Get (quoteUrl a)) = Inr quoteResponse \<and>
                   truthy quoteResponse \<and> \<not> truthy_opt (property quoteResponse (js ''error'')) \<and>
                   fetch w (swap_request lib quoteResponse) = Inr swapResponse \<and>
                   truthy swapResponse \<and> \<not> truthy_opt (property swapResponse (js ''error'')) \<and>
                   property swapResponse (js ''swapTransaction'') = Some swapTransaction \<and>
                   truthy swapTransaction \<and>
                   deserialize lib swapTransaction = Inr transaction \<and>
                   sign lib transaction = Inr signedTx \<and>
                   serialize lib signedTx = Inr rawTransaction \<and>
                   sendRawTransaction w rawTransaction
                     \<lparr>skipPreflight = True, maxRetries = 2\<rparr> = Inr txid \<and>
                   getLatestBlockhash w = Inr latest \<and>
                   confirmTransaction w
                     \<lparr>blockhash = blockhash latest, lastValidBlockHeight = lastValidBlockHeight latest,
                      signature = txid\<rparr> = Inr confirmation \<longrightarrow>
                   events_of f (drop (length (events s)) (events (pollSporeApi lib out s))) =
                     [Printed (attempt_line a),
                      Called (FetchJson (Get (quoteUrl a))),
                      Called (FetchJson (swap_request lib quoteResponse)),
                      Called (SendRawTransaction rawTransaction
                                \<lparr>skipPreflight = True, maxRetries = 2\<rparr>),
                      Called GetLatestBlockhash,
                      Called (ConfirmTransaction
                        \<lparr>blockhash = blockhash latest,
                         lastValidBlockHeight = lastValidBlockHeight latest, signature = txid\<rparr>)] @
                     map Printed (handleTxConfirmation txid confirmation))))"
      by (intro conjI) (rule step, rule still, rule stops, rule starts, rule poller, rule each)
  qed
qed

theorem poll_tick_outcomes_witness:
  "\<not> done_latch initial \<and>
   pollSporeApi sample_lib (sample_outside (Inl (External (js ''fetch failed'')))) initial =
     \<lparr>done_latch = False,
      events = [(Poller, Called (FetchJson (Get SPORE_API_URL))),
                (Poller, Printed (ConsoleError [Str (js ''Error polling Spore API:''),
                                                Caught (External (js ''fetch failed''))]))],
      timers = [100]\<rparr> \<and>
   pollSporeApi sample_lib (sample_outside (Inr [])) initial =
     \<lparr>done_latch = False,
      events = [(Poller, Called (FetchJson (Get SPORE_API_URL)))],
      timers = [100]\<rparr> \<and>
   timers (pollSporeApi sample_lib (sample_outside (Inr scenario_B_agents)) initial) = [] \<and>
   done_latch (pollSporeApi sample_lib (sample_outside (Inr scenario_B_agents)) initial) \<and>
   pollSporeApi sample_lib (sample_outside (Inr both_revealed_agents)) initial =
     \<lparr>done_latch = True,
      events =
        [(Poller, Called (FetchJson (Get SPORE_API_URL))),
         (Poller, Printed (ConsoleLog
            [Str (0x0A # js ''=== Detected reveal ==='' @
                  0x0A # js ''Abel tokenAddress: Mint1'' @
                  0x0A # js ''Trinity tokenAddress: Mint2'' @
                  0x0A # js ''Initiating Jupiter swaps...'')])),
         (AbelSwap, Printed (ConsoleLog [Str (0x0A # js ''Attempting to buy token: Mint1'')])),
         (AbelSwap, Called (FetchJson (Get
            \<lparr>endpoint = js ''https://quote-api.jup.ag/v6/quote'',
             searchParams =
               [(js ''inputMint'', js ''So11111111111111111111111111111111111111112''),
                (js ''outputMint'', js ''Mint1''),
                (js ''amount'', js ''1000000000''),
                (js ''slippageBps'', js ''5000'')]\<rparr>))),
         (TrinitySwap, Printed (ConsoleLog [Str (0x0A # js ''Attempting to buy token: Mint2'')])),
         (TrinitySwap, Called (FetchJson (Get
            \<lparr>endpoint = js ''https://quote-api.jup.ag/v6/quote'',
             searchParams =
               [(js ''inputMint'', js ''So11111111111111111111111111111111111111112''),
                (js ''outputMint'', js ''Mint2''),
                (js ''amount'', js ''1000000000''),
                (js ''slippageBps'', js ''5000'')]\<rparr>))),
         (TrinitySwap, Printed (ConsoleError
            [Str (js ''Jupiter swap failed:''), Caught (External (js ''fetch failed''))])),
         (AbelSwap, Called (FetchJson (Post (js ''https://quote-api.jup.ag/v6/swap'')
            [(js ''Content-Type'', js ''application/json'')]
            (JObj [(js ''quoteResponse'', JObj [(js ''outAmount'', JStr (js ''42''))]),
                   (js ''userPublicKey'', JStr (js ''Wallet1'')),
                   (js ''wrapAndUnwrapSol'', JBool True)])))),
         (AbelSwap, Called (SendRawTransaction [0, 1, 2, 3]
                              \<lparr>skipPreflight = True, maxRetries = 2\<rparr>)),
         (AbelSwap, Called GetLatestBlockhash),
         (AbelSwap, Called (ConfirmTransaction
            \<lparr>blockhash = js ''Hash1'', lastValidBlockHeight = 100, signature = js ''5Sig''\<rparr>)),
         (AbelSwap, Printed (ConsoleLog [Str (js ''Swap successful!'')])),
         (AbelSwap, Printed (ConsoleLog
            [Str (js ''View on Solscan: https://solscan.io/tx/5Sig'')]))],
      timers = []\<rparr> \<and>
   event_loop sample_lib [sample_outside (Inr [])]
       (pollSporeApi sample_lib (sample_outside (Inr both_revealed_agents)) initial) =
     pollSporeApi sample_lib (sample_outside (Inr both_revealed_agents)) initial \<and>
   take 5 (events (pollSporeApi sample_lib (sample_outside (Inr scenario_B_agents)) initial)) =
     [(Poller, Called (FetchJson (Get SPORE_API_URL))),
      (Poller, Printed (ConsoleLog
         [Str (0x0A # js ''=== Detected reveal ==='' @
               0x0A # js ''Abel tokenAddress: Mint1'' @
               0x0A # js ''Trinity tokenAddress: '' @
               0x0A # js ''Initiating Jupiter swaps...'')])),
      (AbelSwap, Printed (ConsoleLog [Str (0x0A # js ''Attempting to buy token: Mint1'')])),
      (AbelSwap, Called (FetchJson (Get
         \<lparr>endpoint = js ''https://quote-api.jup.ag/v6/quote'',
          searchParams =
            [(js ''inputMint'', js ''So11111111111111111111111111111111111111112''),
             (js ''outputMint'', js ''Mint1''),
             (js ''amount'', js ''1000000000''),
             (js ''slippageBps'', js ''5000'')]\<rparr>))),
      (TrinitySwap, Printed (ConsoleError
         [Str (js ''buyTokenWithJupiter called with invalid outputMint:''), Str []]))] \<and>
   events_of Poller
       (events (pollSporeApi sample_lib (sample_outside (Inr scenario_B_agents)) initial)) =
     [Called (FetchJson (Get SPORE_API_URL)),
      Printed (ConsoleLog
         [Str (0x0A # js ''=== Detected reveal ==='' @
               0x0A # js ''Abel tokenAddress: Mint1'' @
               0x0A # js ''Trinity tokenAddress: '' @
               0x0A # js ''Initiating Jupiter swaps...'')])] \<and>
   events_of TrinitySwap
       (events (pollSporeApi sample_lib (sample_outside (Inr scenario_B_agents)) initial)) =
     [Printed (ConsoleError
        [Str (js ''buyTokenWithJupiter called with invalid outputMint:''), Str []])] \<and>
   events_of AbelSwap
       (events (pollSporeApi sample_lib (sample_outside (Inr scenario_B_agents)) initial)) =
     [Printed (ConsoleLog [Str (0x0A # js ''Attempting to buy token: Mint1'')]),
      Called (FetchJson (Get
         \<lparr>endpoint = js ''https://quote-api.jup.ag/v6/quote'',
          searchParams =
            [(js ''inputMint'', js ''So11111111111111111111111111111111111111112''),
             (js ''outputMint'', js ''Mint1''),
             (js ''amount'', js ''1000000000''),
             (js ''slippageBps'', js ''5000'')]\<rparr>)),
      Called (FetchJson (Post (js ''https://quote-api.jup.ag/v6/swap'')
         [(js ''Content-Type'', js ''application/json'')]
         (JObj [(js ''quoteResponse'', JObj [(js ''outAmount'', JStr (js ''42''))]),
                (js ''userPublicKey'', JStr (js ''Wallet1'')),
                (js ''wrapAndUnwrapSol'', JBool True)]))),
      Called (SendRawTransaction [0, 1, 2, 3] \<lparr>skipPreflight = True, maxRetries = 2\<rparr>),
      Called GetLatestBlockhash,
      Called (ConfirmTransaction
         \<lparr>blockhash = js ''Hash1'', lastValidBlockHeight = 100, signature = js ''5Sig''\<rparr>),
      Printed (ConsoleLog [Str (js ''Swap successful!'')]),
      Printed (ConsoleLog [Str (js ''View on Solscan: https://solscan.io/tx/5Sig'')])]"
proof -
  have start: "\<not> done_latch initial"
    by simp
  note T = poll_tick_outcomes [OF start, of _ sample_lib]
  have failed: "pollSporeApi sample_lib (sample_outside (Inl (External (js ''fetch failed'')))) initial =
      initial\<lparr>events := events initial @
                [(Poller, Called (FetchJson (Get SPORE_API_URL))),
                 (Poller, Printed (ConsoleError [Str (js ''Error polling Spore API:''),
                                                 Caught (External (js ''fetch failed''))]))],
            timers := timers initial @ [100]\<rparr>"
    by (rule T [THEN conjunct1, rule_format]) simp
  have quiet: "pollSporeApi sample_lib (sample_outside (Inr [])) initial =
      initial\<lparr>events := events initial @ [(Poller, Called (FetchJson (Get SPORE_API_URL)))],
              timers := timers initial @ [100]\<rparr>"
    by (rule T [THEN conjunct2, THEN conjunct1, rule_format, where agents = "[]"])
       (simp add: no_agents_tokens)
  have reveal: "feed (sample_outside (Inr scenario_B_agents)) = Inr scenario_B_agents \<and>
      (abelToken scenario_B_agents \<noteq> [] \<or> trinityToken scenario_B_agents \<noteq> [])"
    by (simp add: scenario_B_tokens)
  note R = T [THEN conjunct2, THEN conjunct2, rule_format, OF reveal]
  have latched: "done_latch (pollSporeApi sample_lib (sample_outside (Inr scenario_B_agents)) initial)"
    by (subst R [THEN conjunct1]) simp
  have stopped: "timers (pollSporeApi sample_lib (sample_outside (Inr scenario_B_agents)) initial) = []"
    using R [THEN conjunct2, THEN conjunct1] by simp
  have both: "feed (sample_outside (Inr both_revealed_agents)) = Inr both_revealed_agents \<and>
      (abelToken both_revealed_agents \<noteq> [] \<or> trinityToken both_revealed_agents \<noteq> [])"
    by (simp add: both_revealed_tokens)
  note B = T [THEN conjunct2, THEN conjunct2, rule_format, OF both]
  have state: "pollSporeApi sample_lib (sample_outside (Inr both_revealed_agents)) initial =
      initial\<lparr>done_latch := True,
        events := events initial @
          [(Poller, Called (FetchJson (Get SPORE_API_URL))),
           (Poller, Printed (detected_line (js ''Mint1'') (js ''Mint2'')))] @
          [(AbelSwap, Printed (attempt_line (js ''Mint1''))),
           (AbelSwap, Called (FetchJson (Get (quoteUrl (js ''Mint1''))))),
           (TrinitySwap, Printed (attempt_line (js ''Mint2''))),
           (TrinitySwap, Called (FetchJson (Get (quoteUrl (js ''Mint2''))))),
           (TrinitySwap, Printed (failed_line (External (js ''fetch failed'')))),
           (AbelSwap, Called (FetchJson (swap_request sample_lib
                                (JObj [(js ''outAmount'', JStr (js ''42''))])))),
           (AbelSwap, Called (SendRawTransaction [0, 1, 2, 3]
                                \<lparr>skipPreflight = True, maxRetries = 2\<rparr>)),
           (AbelSwap, Called GetLatestBlockhash),
           (AbelSwap, Called (ConfirmTransaction
             \<lparr>blockhash = js ''Hash1'', lastValidBlockHeight = 100, signature = js ''5Sig''\<rparr>)),
           (AbelSwap, Printed (ConsoleLog [Str (js ''Swap successful!'')])),
           (AbelSwap, Printed (ConsoleLog
              [Str (js ''View on Solscan: https://solscan.io/tx/5Sig'')]))]\<rparr>"
    using B [THEN conjunct1]
    by (simp only: both_revealed_tokens sample_outside_simps both_revealed_fan_out)
  have rests: "event_loop sample_lib [sample_outside (Inr [])]
       (pollSporeApi sample_lib (sample_outside (Inr both_revealed_agents)) initial) =
     pollSporeApi sample_lib (sample_outside (Inr both_revealed_agents)) initial"
    by (rule B [THEN conjunct2, THEN conjunct2, THEN conjunct1, rule_format]) simp
  have starts: "take 5 (events (pollSporeApi sample_lib (sample_outside (Inr scenario_B_agents)) initial)) =
     [(Poller, Called (FetchJson (Get SPORE_API_URL))),
      (Poller, Printed (detected_line (js ''Mint1'') [])),
      (AbelSwap, Printed (attempt_line (js ''Mint1''))),
      (AbelSwap, Called (FetchJson (Get (quoteUrl (js ''Mint1''))))),
      (TrinitySwap, Printed (invalid_line (Some [])))]"
    using R [THEN conjunct2, THEN conjunct2, THEN conjunct2, THEN conjunct1]
    by (simp add: scenario_B_tokens by_flow_def)
  have poller: "events_of Poller
       (events (pollSporeApi sample_lib (sample_outside (Inr scenario_B_agents)) initial)) =
     [Called (FetchJson (Get SPORE_API_URL)), Printed (detected_line (js ''Mint1'') [])]"
    using R [THEN conjunct2, THEN conjunct2, THEN conjunct2, THEN conjunct2, THEN conjunct1]
    by (simp add: scenario_B_tokens)
  note E = R [THEN conjunct2, THEN conjunct2, THEN conjunct2, THEN conjunct2, THEN conjunct2,
      rule_format]
  have second: "events_of TrinitySwap
       (events (pollSporeApi sample_lib (sample_outside (Inr scenario_B_agents)) initial)) =
     [Printed (invalid_line (Some []))]"
    using E [of TrinitySwap offline_world "[]", THEN conjunct1]
    by (simp add: scenario_B_tokens)
  have first: "events_of AbelSwap
       (drop (length (events initial))
          (events (pollSporeApi sample_lib (sample_outside (Inr scenario_B_agents)) initial))) =
     [Printed (attempt_line (js ''Mint1'')),
      Called (FetchJson (Get (quoteUrl (js ''Mint1'')))),
      Called (FetchJson (swap_request sample_lib (JObj [(js ''outAmount'', JStr (js ''42''))]))),
      Called (SendRawTransaction [0, 1, 2, 3] \<lparr>skipPreflight = True, maxRetries = 2\<rparr>),
      Called GetLatestBlockhash,
      Called (ConfirmTransaction
        \<lparr>blockhash = blockhash \<lparr>blockhash = js ''Hash1'', lastValidBlockHeight = 100\<rparr>,
         lastValidBlockHeight =
           lastValidBlockHeight \<lparr>blockhash = js ''Hash1'', lastValidBlockHeight = 100\<rparr>,
         signature = js ''5Sig''\<rparr>)] @
     map Printed (handleTxConfirmation (js ''5Sig'')
                    \<lparr>rpc_context = 1, rpc_value = \<lparr>err = Some JNull\<rparr>\<rparr>)"
    by (rule E [of AbelSwap good_world "js ''Mint1''", THEN conjunct2, rule_format,
          THEN conjunct2, THEN conjunct2, rule_format,
          where swapResponse = "JObj [(js ''swapTransaction'', JStr (js ''AQID''))]"
            and swapTransaction = "JStr (js ''AQID'')"
            and transaction = "[1, 2, 3]" and signedTx = "[0, 1, 2, 3]"])
       (simp_all add: scenario_B_tokens good_world_def sample_lib_def swap_request_def)
  show ?thesis
    using failed quiet latched stopped state rests starts poller second first
    by (simp add: initial_def invalid_line_def attempt_line_def
        detected_line_def failed_line_def swap_request_def swapUrl_def swapBody_def
        sample_lib_def handleTxConfirmation_def quoteUrl_eq js_append)
qed

text \<open>
  C3. Scenario B: the agent with id 6 has the address \<open>Mint1\<close>, the agent with id 7 the
  empty address. The call sets \<open>done\<close> and sets no timer; the first swap starts on
  \<open>Mint1\<close> and issues its quote request, the second swap is called with the empty string
  and only prints the line of its guard, and all that follows belongs to the first swap,
  which runs as it would alone. The state reached is final: a further call of
  \<open>pollSporeApi\<close> leaves it as it is. The external calls of the first swap are a prefix
  of quote, swap request, submission, block hash, confirmation; and when each of them
  succeeds, the events of the call are exactly: the feed request, the detection line, the
  attempt line and the quote request of the first swap, the guard line of the second, then
  the swap request carrying the quote, the submission of the signed transaction with
  \<open>skipPreflight\<close> and two retries, the block hash request, the confirmation request for
  that hash and signature, and the lines of \<open>handleTxConfirmation\<close>.
\<close>

theorem single_reveal_fires:
  assumes "\<not> done_latch s" and "feed out = Inr agents"
    and "List.find (\<lambda>agent. agent_id agent = 6) agents = Some a"
    and "tokenAddress a = Some (js ''Mint1'')"
    and "List.find (\<lambda>agent. agent_id agent = 7) agents = Some t"
    and "tokenAddress t = Some []"
  shows "done_latch (pollSporeApi lib out s) \<and>
         timers (pollSporeApi lib out s) = timers s \<and>
         events (pollSporeApi lib out s) =
           events s @
           [(Poller, Called (FetchJson (Get SPORE_API_URL))),
            (Poller, Printed (detected_line (js ''Mint1'') [])),
            (AbelSwap, Printed (attempt_line (js ''Mint1''))),
            (AbelSwap, Called (FetchJson (Get (quoteUrl (js ''Mint1''))))),
            (TrinitySwap, Printed (invalid_line (Some [])))] @
           by_flow AbelSwap
             (drop 2 (fst (run (abelWorld out) (buyTokenWithJupiter lib (Some (js ''Mint1'')))))) \<and>
         events_of AbelSwap (drop (length (events s)) (events (pollSporeApi lib out s))) =
           fst (run (abelWorld out) (buyTokenWithJupiter lib (Some (js ''Mint1'')))) \<and>
         events_of TrinitySwap (drop (length (events s)) (events (pollSporeApi lib out s))) =
           [Printed (invalid_line (Some []))] \<and>
         (\<forall>next. pollSporeApi lib next (pollSporeApi lib out s) = pollSporeApi lib out s) \<and>
         map stage (calls (events_of AbelSwap
             (drop (length (events s)) (events (pollSporeApi lib out s))))) \<in>
           {[0], [0, 1], [0, 1, 2], [0, 1, 2, 3], [0, 1, 2, 3, 4]} \<and>
         (\<forall>quoteResponse swapResponse swapTransaction transaction signedTx rawTransaction txid
             latest confirmation.
            fetch (abelWorld out) (Get (quoteUrl (js ''Mint1''))) = Inr quoteResponse \<and>
            truthy quoteResponse \<and> \<not> truthy_opt (property quoteResponse (js ''error'')) \<and>
            fetch (abelWorld out) (swap_request lib quoteResponse) = Inr swapResponse \<and>
            truthy swapResponse \<and> \<not> truthy_opt (property swapResponse (js ''error'')) \<and>
            property swapResponse (js ''swapTransaction'') = Some swapTransaction \<and>
            truthy swapTransaction \<and>
            deserialize lib swapTransaction = Inr transaction \<and>
            sign lib transaction = Inr signedTx \<and>
            serialize lib signedTx = Inr rawTransaction \<and>
            sendRawTransaction (abelWorld out) rawTransaction
              \<lparr>skipPreflight = True, maxRetries = 2\<rparr> = Inr txid \<and>
            getLatestBlockhash (abelWorld out) = Inr latest \<and>
            confirmTransaction (abelWorld out)
              \<lparr>blockhash = blockhash latest, lastValidBlockHeight = lastValidBlockHeight latest,
               signature = txid\<rparr> = Inr confirmation \<longrightarrow>
            events (pollSporeApi lib out s) =
              events s @
              [(Poller, Called (FetchJson (Get SPORE_API_URL))),
               (Poller, Printed (detected_line (js ''Mint1'') [])),
               (AbelSwap, Printed (attempt_line (js ''Mint1''))),
               (AbelSwap, Called (FetchJson (Get (quoteUrl (js ''Mint1''))))),
               (TrinitySwap, Printed (invalid_line (Some []))),
               (AbelSwap, Called (FetchJson (swap_request lib quoteResponse))),
               (AbelSwap, Called (SendRawTransaction rawTransaction
                                    \<lparr>skipPreflight = True, maxRetries = 2\<rparr>)),
               (AbelSwap, Called GetLatestBlockhash),
               (AbelSwap, Called (ConfirmTransaction
                  \<lparr>blockhash = blockhash latest,
                   lastValidBlockHeight = lastValidBlockHeight latest, signature = txid\<rparr>))] @
              by_flow AbelSwap (map Printed (handleTxConfirmation txid confirmation)))"
proof -
  from assms have tokens: "abelToken agents = js ''Mint1''" "trinityToken agents = []"
    by (simp_all add: abelToken_def trinityToken_def abel_def trinity_def token_def
        AGENT_ABEL_ID_def AGENT_TRINITY_ID_def trim_Mint1)
  have nonblank: "trim (js ''Mint1'') \<noteq> []"
    by (simp add: trim_Mint1)
  from tokens have reveal: "abelToken agents \<noteq> [] \<or> trinityToken agents \<noteq> []"
    by simp
  note step = poll_reveal [OF assms(1,2) reveal, of lib, unfolded tokens]
  have latched: "done_latch (pollSporeApi lib out s)"
    by (simp add: step)
  have all: "events (pollSporeApi lib out s) =
           events s @
           [(Poller, Called (FetchJson (Get SPORE_API_URL))),
            (Poller, Printed (detected_line (js ''Mint1'') [])),
            (AbelSwap, Printed (attempt_line (js ''Mint1''))),
            (AbelSwap, Called (FetchJson (Get (quoteUrl (js ''Mint1''))))),
            (TrinitySwap, Printed (invalid_line (Some [])))] @
           by_flow AbelSwap
             (drop 2 (fst (run (abelWorld out) (buyTokenWithJupiter lib (Some (js ''Mint1''))))))"
    by (simp add: step fan_out_one_blank [OF nonblank])
  have abel: "events_of AbelSwap (drop (length (events s)) (events (pollSporeApi lib out s))) =
           fst (run (abelWorld out) (buyTokenWithJupiter lib (Some (js ''Mint1''))))"
    by (simp add: step promise_all_events swaps_resolve)
  show ?thesis
  proof (intro conjI allI impI)
    show "done_latch (pollSporeApi lib out s)" by (rule latched)
    show "timers (pollSporeApi lib out s) = timers s" by (simp add: step)
    show "events (pollSporeApi lib out s) =
           events s @
           [(Poller, Called (FetchJson (Get SPORE_API_URL))),
            (Poller, Printed (detected_line (js ''Mint1'') [])),
            (AbelSwap, Printed (attempt_line (js ''Mint1''))),
            (AbelSwap, Called (FetchJson (Get (quoteUrl (js ''Mint1''))))),
            (TrinitySwap, Printed (invalid_line (Some [])))] @
           by_flow AbelSwap
             (drop 2 (fst (run (abelWorld out) (buyTokenWithJupiter lib (Some (js ''Mint1''))))))"
      by (rule all)
    show "events_of AbelSwap (drop (length (events s)) (events (pollSporeApi lib out s))) =
           fst (run (abelWorld out) (buyTokenWithJupiter lib (Some (js ''Mint1''))))"
      by (rule abel)
    show "events_of TrinitySwap (drop (length (events s)) (events (pollSporeApi lib out s))) =
           [Printed (invalid_line (Some []))]"
      by (simp add: step promise_all_events swaps_resolve buy_blank_run)
    show "pollSporeApi lib next (pollSporeApi lib out s) = pollSporeApi lib out s" for "next"
      using latched by (rule poll_done)
    show "map stage (calls (events_of AbelSwap
             (drop (length (events s)) (events (pollSporeApi lib out s))))) \<in>
           {[0], [0, 1], [0, 1, 2], [0, 1, 2, 3], [0, 1, 2, 3, 4]}"
      by (simp only: abel) (rule buy_order [OF nonblank])
  next
    fix quoteResponse swapResponse swapTransaction transaction signedTx rawTransaction txid latest
      confirmation
    assume "fetch (abelWorld out) (Get (quoteUrl (js ''Mint1''))) = Inr quoteResponse \<and>
            truthy quoteResponse \<and> \<not> truthy_opt (property quoteResponse (js ''error'')) \<and>
            fetch (abelWorld out) (swap_request lib quoteResponse) = Inr swapResponse \<and>
            truthy swapResponse \<and> \<not> truthy_opt (property swapResponse (js ''error'')) \<and>
            property swapResponse (js ''swapTransaction'') = Some swapTransaction \<and>
            truthy swapTransaction \<and>
            deserialize lib swapTransaction = Inr transaction \<and>
            sign lib transaction = Inr signedTx \<and>
            serialize lib signedTx = Inr rawTransaction \<and>
            sendRawTransaction (abelWorld out) rawTransaction
              \<lparr>skipPreflight = True, maxRetries = 2\<rparr> = Inr txid \<and>
            getLatestBlockhash (abelWorld out) = Inr latest \<and>
            confirmTransaction (abelWorld out)
              \<lparr>blockhash = blockhash latest, lastValidBlockHeight = lastValidBlockHeight latest,
               signature = txid\<rparr> = Inr confirmation"
    then have "run (abelWorld out) (buyTokenWithJupiter lib (Some (js ''Mint1''))) =
          ([Printed (attempt_line (js ''Mint1'')),
            Called (FetchJson (Get (quoteUrl (js ''Mint1'')))),
            Called (FetchJson (swap_request lib quoteResponse)),
            Called (SendRawTransaction rawTransaction \<lparr>skipPreflight = True, maxRetries = 2\<rparr>),
            Called GetLatestBlockhash,
            Called (ConfirmTransaction
              \<lparr>blockhash = blockhash latest, lastValidBlockHeight = lastValidBlockHeight latest,
               signature = txid\<rparr>)] @
           map Printed (handleTxConfirmation txid confirmation),
           Inr ())"
      using swap_success [OF nonblank, where w = "abelWorld out" and lib = lib
          and quoteResponse = quoteResponse and swapResponse = swapResponse
          and swapTransaction = swapTransaction and transaction = transaction
          and signedTx = signedTx and rawTransaction = rawTransaction and txid = txid
          and latest = latest and confirmation = confirmation]
      by simp
    then show "events (pollSporeApi lib out s) =
              events s @
              [(Poller, Called (FetchJson (Get SPORE_API_URL))),
               (Poller, Printed (detected_line (js ''Mint1'') [])),
               (AbelSwap, Printed (attempt_line (js ''Mint1''))),
               (AbelSwap, Called (FetchJson (Get (quoteUrl (js ''Mint1''))))),
               (TrinitySwap, Printed (invalid_line (Some []))),
               (AbelSwap, Called (FetchJson (swap_request lib quoteResponse))),
               (AbelSwap, Called (SendRawTransaction rawTransaction
                                    \<lparr>skipPreflight = True, maxRetries = 2\<rparr>)),
               (AbelSwap, Called GetLatestBlockhash),
               (AbelSwap, Called (ConfirmTransaction
                  \<lparr>blockhash = blockhash latest,
                   lastValidBlockHeight = lastValidBlockHeight latest, signature = txid\<rparr>))] @
              by_flow AbelSwap (map Printed (handleTxConfirmation txid confirmation))"
      by (simp add: all by_flow_def)
  qed
qed

theorem single_reveal_fires_witness:
  "\<not> done_latch initial \<and>
   List.find (\<lambda>agent. agent_id agent = 6) scenario_B_agents =
     Some \<lparr>agent_id = 6, tokenAddress = Some (js ''Mint1'')\<rparr> \<and>
   List.find (\<lambda>agent. agent_id agent = 7) scenario_B_agents =
     Some \<lparr>agent_id = 7, tokenAddress = Some []\<rparr> \<and>
   done_latch (pollSporeApi sample_lib (sample_outside (Inr scenario_B_agents)) initial) \<and>
   timers (pollSporeApi sample_lib (sample_outside (Inr scenario_B_agents)) initial) = [] \<and>
   events_of TrinitySwap
     (events (pollSporeApi sample_lib (sample_outside (Inr scenario_B_agents)) initial)) =
     [Printed (ConsoleError
        [Str (js ''buyTokenWithJupiter called with invalid outputMint:''), Str []])] \<and>
   events_of AbelSwap
     (events (pollSporeApi sample_lib (sample_outside (Inr scenario_B_agents)) initial)) =
     fst (run good_world (buyTokenWithJupiter sample_lib (Some (js ''Mint1'')))) \<and>
   events (pollSporeApi sample_lib (sample_outside (Inr scenario_B_agents)) initial) =
     [(Poller, Called (FetchJson (Get SPORE_API_URL))),
      (Poller, Printed (ConsoleLog
         [Str (0x0A # js ''=== Detected reveal ==='' @
               0x0A # js ''Abel tokenAddress: Mint1'' @
               0x0A # js ''Trinity tokenAddress: '' @
               0x0A # js ''Initiating Jupiter swaps...'')])),
      (AbelSwap, Printed (ConsoleLog [Str (0x0A # js ''Attempting to buy token: Mint1'')])),
      (AbelSwap, Called (FetchJson (Get
         \<lparr>endpoint = js ''https://quote-api.jup.ag/v6/quote'',
          searchParams =
            [(js ''inputMint'', js ''So11111111111111111111111111111111111111112''),
             (js ''outputMint'', js ''Mint1''),
             (js ''amount'', js ''1000000000''),
             (js ''slippageBps'', js ''5000'')]\<rparr>))),
      (TrinitySwap, Printed (ConsoleError
         [Str (js ''buyTokenWithJupiter called with invalid outputMint:''), Str []])),
      (AbelSwap, Called (FetchJson (Post (js ''https://quote-api.jup.ag/v6/swap'')
         [(js ''Content-Type'', js ''application/json'')]
         (JObj [(js ''quoteResponse'', JObj [(js ''outAmount'', JStr (js ''42''))]),
                (js ''userPublicKey'', JStr (js ''Wallet1'')),
                (js ''wrapAndUnwrapSol'', JBool True)])))),
      (AbelSwap, Called (SendRawTransaction [0, 1, 2, 3] \<lparr>skipPreflight = True, maxRetries = 2\<rparr>)),
      (AbelSwap, Called GetLatestBlockhash),
      (AbelSwap, Called (ConfirmTransaction
         \<lparr>blockhash = js ''Hash1'', lastValidBlockHeight = 100, signature = js ''5Sig''\<rparr>)),
      (AbelSwap, Printed (ConsoleLog [Str (js ''Swap successful!'')])),
      (AbelSwap, Printed (ConsoleLog [Str (js ''View on Solscan: https://solscan.io/tx/5Sig'')]))]"
proof -
  have six: "List.find (\<lambda>agent. agent_id agent = 6) scenario_B_agents =
      Some \<lparr>agent_id = 6, tokenAddress = Some (js ''Mint1'')\<rparr>"
    by (simp add: scenario_B_agents_def)
  have seven: "List.find (\<lambda>agent. agent_id agent = 7) scenario_B_agents =
      Some \<lparr>agent_id = 7, tokenAddress = Some []\<rparr>"
    by (simp add: scenario_B_agents_def)
  have start: "\<not> done_latch initial"
    by simp
  have fed: "feed (sample_outside (Inr scenario_B_agents)) = Inr scenario_B_agents"
    by simp
  note S = single_reveal_fires [OF start fed six _ seven, of sample_lib, simplified]
  note F = single_reveal_fires [OF start fed six _ seven, of sample_lib]
  have full: "events (pollSporeApi sample_lib (sample_outside (Inr scenario_B_agents)) initial) =
      events initial @
      [(Poller, Called (FetchJson (Get SPORE_API_URL))),
       (Poller, Printed (detected_line (js ''Mint1'') [])),
       (AbelSwap, Printed (attempt_line (js ''Mint1''))),
       (AbelSwap, Called (FetchJson (Get (quoteUrl (js ''Mint1''))))),
       (TrinitySwap, Printed (invalid_line (Some []))),
       (AbelSwap, Called (FetchJson (swap_request sample_lib
                            (JObj [(js ''outAmount'', JStr (js ''42''))])))),
       (AbelSwap, Called (SendRawTransaction [0, 1, 2, 3]
                            \<lparr>skipPreflight = True, maxRetries = 2\<rparr>)),
       (AbelSwap, Called GetLatestBlockhash),
       (AbelSwap, Called (ConfirmTransaction
          \<lparr>blockhash = blockhash \<lparr>blockhash = js ''Hash1'', lastValidBlockHeight = 100\<rparr>,
           lastValidBlockHeight =
             lastValidBlockHeight \<lparr>blockhash = js ''Hash1'', lastValidBlockHeight = 100\<rparr>,
           signature = js ''5Sig''\<rparr>))] @
      by_flow AbelSwap (map Printed (handleTxConfirmation (js ''5Sig'')
                          \<lparr>rpc_context = 1, rpc_value = \<lparr>err = Some JNull\<rparr>\<rparr>))"
    by (rule F [THEN conjunct2, THEN conjunct2, THEN conjunct2, THEN conjunct2, THEN conjunct2,
          THEN conjunct2, THEN conjunct2, rule_format,
          where swapResponse = "JObj [(js ''swapTransaction'', JStr (js ''AQID''))]"
            and swapTransaction = "JStr (js ''AQID'')"
            and transaction = "[1, 2, 3]" and signedTx = "[0, 1, 2, 3]"])
       (simp_all add: good_world_def sample_lib_def swap_request_def)
  show ?thesis
    using six seven S [THEN conjunct1] S [THEN conjunct2, THEN conjunct1]
      S [THEN conjunct2, THEN conjunct2, THEN conjunct2, THEN conjunct1]
      S [THEN conjunct2, THEN conjunct2, THEN conjunct2, THEN conjunct2, THEN conjunct1]
      full
    by (simp add: invalid_line_def attempt_line_def detected_line_def swap_request_def
        swapUrl_def swapBody_def sample_lib_def handleTxConfirmation_def quoteUrl_eq js_append
        by_flow_def)
qed

section \<open>Properties of the detection\<close>

text \<open>
  C2, as the specification states it, fails on a feed that lists an identifier twice: below, an
  agent with id 6 and the address \<open>Mint1\<close> is in the feed, yet the address taken for id 6
  is empty and the call detects nothing, because the first agent with id 6 has an empty
  address.
\<close>

theorem duplicate_identifier_counterexample:
  "duplicate_agents ! 1 \<in> set duplicate_agents \<and>
   agent_id (duplicate_agents ! 1) = 6 \<and>
   tokenAddress (duplicate_agents ! 1) = Some (js ''Mint1'') \<and>
   trim (js ''Mint1'') \<noteq> [] \<and>
   abelToken duplicate_agents = [] \<and>
   \<not> done_latch (pollSporeApi sample_lib (sample_outside (Inr duplicate_agents)) initial)"
proof -
  have "\<not> done_latch (pollSporeApi sample_lib (sample_outside (Inr duplicate_agents)) initial)"
    by (simp add: poll_no_reveal duplicate_tokens)
  moreover have "duplicate_agents ! 1 \<in> set duplicate_agents \<and>
     agent_id (duplicate_agents ! 1) = 6 \<and>
     tokenAddress (duplicate_agents ! 1) = Some (js ''Mint1'')"
    by (simp add: duplicate_agents_def)
  ultimately show ?thesis
    by (simp add: trim_Mint1 duplicate_tokens)
qed

text \<open>
  C2, amended. The address taken for a target (id 6 or 7) is non-empty exactly when the
  feed has an agent with that identifier and the address of the first such agent, trimmed,
  is non-empty; the address taken is then that trimmed address. A feed without an agent of
  that identifier gives the empty address. The empty string and \<open>"   "\<close> trim to the empty
  string, \<open>"  Addr123  "\<close> to \<open>"Addr123"\<close>. A call of \<open>pollSporeApi\<close> sets \<open>done\<close> exactly
  when one of the two addresses taken is non-empty, and the swaps then run on these
  trimmed addresses.
\<close>

theorem reveal_detection:
  "(abelToken agents \<noteq> [] \<longleftrightarrow>
      (\<exists>a address. List.find (\<lambda>agent. agent_id agent = 6) agents = Some a \<and>
                    tokenAddress a = Some address \<and> trim address \<noteq> [])) \<and>
   (trinityToken agents \<noteq> [] \<longleftrightarrow>
      (\<exists>a address. List.find (\<lambda>agent. agent_id agent = 7) agents = Some a \<and>
                    tokenAddress a = Some address \<and> trim address \<noteq> [])) \<and>
   (\<forall>a address. List.find (\<lambda>agent. agent_id agent = 6) agents = Some a \<and>
                 tokenAddress a = Some address \<longrightarrow> abelToken agents = trim address) \<and>
   (\<forall>a address. List.find (\<lambda>agent. agent_id agent = 7) agents = Some a \<and>
                 tokenAddress a = Some address \<longrightarrow> trinityToken agents = trim address) \<and>
   ((\<forall>a\<in>set agents. agent_id a \<noteq> 6) \<longrightarrow> abelToken agents = []) \<and>
   ((\<forall>a\<in>set agents. agent_id a \<noteq> 7) \<longrightarrow> trinityToken agents = []) \<and>
   trim (js '''') = [] \<and> trim (js ''   '') = [] \<and> trim (js ''  Addr123  '') = js ''Addr123'' \<and>
   (\<not> done_latch s \<and> feed out = Inr agents \<longrightarrow>
      (done_latch (pollSporeApi lib out s) \<longleftrightarrow> abelToken agents \<noteq> [] \<or> trinityToken agents \<noteq> []) \<and>
      events_of AbelSwap (events (pollSporeApi lib out s)) =
        events_of AbelSwap (events s) @
        (if abelToken agents \<noteq> [] \<or> trinityToken agents \<noteq> []
         then fst (run (abelWorld out) (buyTokenWithJupiter lib (Some (abelToken agents))))
         else []) \<and>
      events_of TrinitySwap (events (pollSporeApi lib out s)) =
        events_of TrinitySwap (events s) @
        (if abelToken agents \<noteq> [] \<or> trinityToken agents \<noteq> []
         then fst (run (trinityWorld out) (buyTokenWithJupiter lib (Some (trinityToken agents))))
         else []))"
proof -
  have missing: "List.find P agents = None" if "\<forall>a\<in>set agents. \<not> P a" for P :: "Agent \<Rightarrow> bool"
    using that by (simp add: find_None_iff)
  have tick: "(done_latch (pollSporeApi lib out s) \<longleftrightarrow>
        abelToken agents \<noteq> [] \<or> trinityToken agents \<noteq> []) \<and>
      events_of AbelSwap (events (pollSporeApi lib out s)) =
        events_of AbelSwap (events s) @
        (if abelToken agents \<noteq> [] \<or> trinityToken agents \<noteq> []
         then fst (run (abelWorld out) (buyTokenWithJupiter lib (Some (abelToken agents))))
         else []) \<and>
      events_of TrinitySwap (events (pollSporeApi lib out s)) =
        events_of TrinitySwap (events s) @
        (if abelToken agents \<noteq> [] \<or> trinityToken agents \<noteq> []
         then fst (run (trinityWorld out) (buyTokenWithJupiter lib (Some (trinityToken agents))))
         else [])"
    if "\<not> done_latch s" "feed out = Inr agents"
  proof (cases "abelToken agents \<noteq> [] \<or> trinityToken agents \<noteq> []")
    case True
    show ?thesis
      using True by (simp add: poll_reveal [OF that True] promise_all_events swaps_resolve)
  next
    case False
    then show ?thesis
      using that by (simp add: poll_no_reveal)
  qed
  show ?thesis
  proof (intro conjI allI impI)
    show "abelToken agents \<noteq> [] \<longleftrightarrow>
      (\<exists>a address. List.find (\<lambda>agent. agent_id agent = 6) agents = Some a \<and>
                    tokenAddress a = Some address \<and> trim address \<noteq> [])"
      by (simp add: abelToken_def abel_def AGENT_ABEL_ID_def token_nonempty)
    show "trinityToken agents \<noteq> [] \<longleftrightarrow>
      (\<exists>a address. List.find (\<lambda>agent. agent_id agent = 7) agents = Some a \<and>
                    tokenAddress a = Some address \<and> trim address \<noteq> [])"
      by (simp add: trinityToken_def trinity_def AGENT_TRINITY_ID_def token_nonempty)
    show "abelToken agents = trim address"
      if "List.find (\<lambda>agent. agent_id agent = 6) agents = Some a \<and> tokenAddress a = Some address"
      for a address
      using that by (simp add: abelToken_def abel_def AGENT_ABEL_ID_def token_def)
    show "trinityToken agents = trim address"
      if "List.find (\<lambda>agent. agent_id agent = 7) agents = Some a \<and> tokenAddress a = Some address"
      for a address
      using that by (simp add: trinityToken_def trinity_def AGENT_TRINITY_ID_def token_def)
    show "abelToken agents = []" if "\<forall>a\<in>set agents. agent_id a \<noteq> 6"
      using missing [of "\<lambda>agent. agent_id agent = 6"] that
      by (simp add: abelToken_def abel_def AGENT_ABEL_ID_def token_def)
    show "trinityToken agents = []" if "\<forall>a\<in>set agents. agent_id a \<noteq> 7"
      using missing [of "\<lambda>agent. agent_id agent = 7"] that
      by (simp add: trinityToken_def trinity_def AGENT_TRINITY_ID_def token_def)
    show "trim (js '''') = []" by simp
    show "trim (js ''   '') = []" by (rule trim_spaces)
    show "trim (js ''  Addr123  '') = js ''Addr123''" by (rule trim_Addr123)
    show "done_latch (pollSporeApi lib out s) \<longleftrightarrow>
        abelToken agents \<noteq> [] \<or> trinityToken agents \<noteq> []"
      if "\<not> done_latch s \<and> feed out = Inr agents"
      using that tick by blast
    show "events_of AbelSwap (events (pollSporeApi lib out s)) =
        events_of AbelSwap (events s) @
        (if abelToken agents \<noteq> [] \<or> trinityToken agents \<noteq> []
         then fst (run (abelWorld out) (buyTokenWithJupiter lib (Some (abelToken agents))))
         else [])"
      if "\<not> done_latch s \<and> feed out = Inr agents"
      using that tick by blast
    show "events_of TrinitySwap (events (pollSporeApi lib out s)) =
        events_of TrinitySwap (events s) @
        (if abelToken agents \<noteq> [] \<or> trinityToken agents \<noteq> []
         then fst (run (trinityWorld out) (buyTokenWithJupiter lib (Some (trinityToken agents))))
         else [])"
      if "\<not> done_latch s \<and> feed out = Inr agents"
      using that tick by blast
  qed
qed

theorem reveal_detection_witness:
  "List.find (\<lambda>agent. agent_id agent = 6)
     [\<lparr>agent_id = 7, tokenAddress = None\<rparr>,
      \<lparr>agent_id = 6, tokenAddress = Some (js ''  Addr123  '')\<rparr>] =
     Some \<lparr>agent_id = 6, tokenAddress = Some (js ''  Addr123  '')\<rparr> \<and>
   abelToken [\<lparr>agent_id = 7, tokenAddress = None\<rparr>,
              \<lparr>agent_id = 6, tokenAddress = Some (js ''  Addr123  '')\<rparr>] = js ''Addr123'' \<and>
   List.find (\<lambda>agent. agent_id agent = 7)
     [\<lparr>agent_id = 6, tokenAddress = Some (js ''Mint1'')\<rparr>] = None \<and>
   trinityToken [\<lparr>agent_id = 6, tokenAddress = Some (js ''Mint1'')\<rparr>] = [] \<and>
   \<not> done_latch initial \<and>
   done_latch (pollSporeApi sample_lib
     (sample_outside (Inr [\<lparr>agent_id = 7, tokenAddress = None\<rparr>,
                           \<lparr>agent_id = 6, tokenAddress = Some (js ''  Addr123  '')\<rparr>])) initial)"
proof -
  let ?agents = "[\<lparr>agent_id = 7, tokenAddress = None\<rparr>,
                  \<lparr>agent_id = 6, tokenAddress = Some (js ''  Addr123  '')\<rparr>]"
  have found: "List.find (\<lambda>agent. agent_id agent = 6) ?agents =
      Some \<lparr>agent_id = 6, tokenAddress = Some (js ''  Addr123  '')\<rparr>"
    by simp
  note D = reveal_detection [of ?agents initial "sample_outside (Inr ?agents)" sample_lib]
  have address: "abelToken ?agents = js ''Addr123''"
    using D [THEN conjunct2, THEN conjunct2, THEN conjunct1, rule_format,
        of "\<lparr>agent_id = 6, tokenAddress = Some (js ''  Addr123  '')\<rparr>" "js ''  Addr123  ''"]
    by (simp add: trim_Addr123)
  have absent: "trinityToken [\<lparr>agent_id = 6, tokenAddress = Some (js ''Mint1'')\<rparr>] = []"
    by (rule reveal_detection [THEN conjunct2, THEN conjunct2, THEN conjunct2, THEN conjunct2,
          THEN conjunct2, THEN conjunct1, rule_format]) simp
  have start: "\<not> done_latch initial \<and> feed (sample_outside (Inr ?agents)) = Inr ?agents"
    by simp
  note tick = D [THEN conjunct2, THEN conjunct2, THEN conjunct2, THEN conjunct2, THEN conjunct2,
      THEN conjunct2, THEN conjunct2, THEN conjunct2, THEN conjunct2, rule_format, OF start]
  have fired: "done_latch (pollSporeApi sample_lib (sample_outside (Inr ?agents)) initial)"
    by (subst tick [THEN conjunct1]) (simp add: address)
  show ?thesis
    using found address absent fired by simp
qed



end
